theory Spec2Isabelle
  imports Complex_Main "HOL-Library.Log_Nat"
begin

section \<open>JavaScript values\<close>

text \<open>
  The library \<^verbatim>\<open>@corvid-agent/env\<close> (\<^verbatim>\<open>src/index.ts\<close>) turns raw environment strings into
  typed values. A JavaScript number is an IEEE 754 double: not-a-number, the two
  infinities, negative zero, or a finite value, kept here as the exact rational it denotes
  (\<open>Finite 0\<close> is positive zero).
\<close>

datatype number = NaN | PosInfinity | NegInfinity | NegZero | Finite rat

text \<open>
  The values that flow through the resolver are untyped at run time (\<^verbatim>\<open>unknown\<close>, \<^verbatim>\<open>any\<close>):
  primitives, the data that \<^verbatim>\<open>JSON.parse\<close> builds, and two kinds of objects of the engine.
  \<open>Builtin n\<close> is the object that every ordinary object inherits under the name \<open>n\<close> from
  \<^verbatim>\<open>Object.prototype\<close>: a native function such as \<^verbatim>\<open>toString\<close> or \<^verbatim>\<open>constructor\<close>, and for
  \<^verbatim>\<open>__proto__\<close> the object \<^verbatim>\<open>Object.prototype\<close> itself. \<open>NativeError n\<close> is an error that the
  engine throws, an instance of the class named \<open>n\<close>.
\<close>

datatype jsvalue = Undefined | Null | Bool bool | Num number | Str string
  | Array "jsvalue list" | Object "(string \<times> jsvalue) list"
  | Builtin string | NativeError string

subsection \<open>Strings\<close>

text \<open>
  A JavaScript string is a sequence of code units. A \<^typ>\<open>char\<close> stands for the code unit
  with the same number, so the strings of this theory are the JavaScript strings whose code
  units are below 256 (ASCII and Latin-1). White space is what \<^verbatim>\<open>String.prototype.trim\<close> and
  the numeric string grammar strip in that range: TAB, LF, VT, FF, CR, SP and NBSP.
\<close>

definition isWhiteSpace :: "char \<Rightarrow> bool" where
  "isWhiteSpace c \<longleftrightarrow> (of_char c :: nat) \<in> set [9, 10, 11, 12, 13, 32, 160]"

definition trim :: "string \<Rightarrow> string" where
  "trim s = rev (dropWhile isWhiteSpace (rev (dropWhile isWhiteSpace s)))"

text \<open>
  \<^verbatim>\<open>String.prototype.toLowerCase\<close> on code units below 256: the letters A to Z and the
  Latin-1 capitals U+00C0 to U+00DE (but not the multiplication sign U+00D7) move up by 32,
  everything else stays.
\<close>

definition toLowerCaseChar :: "char \<Rightarrow> char" where
  "toLowerCaseChar c =
     (let n = (of_char c :: nat)
      in if (65 \<le> n \<and> n \<le> 90) \<or> (192 \<le> n \<and> n \<le> 222 \<and> n \<noteq> 215)
         then char_of (n + 32) else c)"

definition toLowerCase :: "string \<Rightarrow> string" where
  "toLowerCase s = map toLowerCaseChar s"

text \<open>A template literal \<^verbatim>\<open>"${raw}"\<close> puts the string between two double quotes.\<close>

definition quoted :: "string \<Rightarrow> string" where
  "quoted s = [CHR 0x22] @ s @ [CHR 0x22]"

subsection \<open>Rounding to a double\<close>

text \<open>
  The number value of a non-negative rational \<open>n / d\<close> (integers \<open>0 \<le> n\<close> and \<open>0 < d\<close>): the nearest double, ties going to
  the even significand, and infinity from \<open>2 ^ 1024\<close> on. \<open>ilog2 n d\<close> is the binary
  exponent \<open>\<lfloor>log\<^sub>2 (n / d)\<rfloor>\<close>, found from the bit lengths of \<open>n\<close> and \<open>d\<close>; the unit in the
  last place is \<open>2 ^ (e - 52)\<close>, and never below \<open>2 ^ -1074\<close> (subnormal numbers).
\<close>

definition pow2_le :: "int \<Rightarrow> int \<Rightarrow> int \<Rightarrow> bool" where
  "pow2_le k n d \<longleftrightarrow> (if 0 \<le> k then 2 ^ nat k * d \<le> n else d \<le> n * 2 ^ nat (- k))"

definition ilog2 :: "int \<Rightarrow> int \<Rightarrow> int" where
  "ilog2 n d = (let k = bitlen n - bitlen d in if pow2_le k n d then k else k - 1)"

definition roundHalfEven :: "int \<Rightarrow> int \<Rightarrow> int" where
  "roundHalfEven a b =
     (let f = a div b; r = a mod b
      in if 2 * r < b then f else if b < 2 * r then f + 1 else if even f then f else f + 1)"

definition toDouble :: "int \<Rightarrow> int \<Rightarrow> number" where
  "toDouble n d =
     (if n = 0 then Finite 0
      else let e = ilog2 n d;
               ex = max (e - 52) (- 1074);
               m = (if 0 \<le> ex then roundHalfEven n (d * 2 ^ nat ex)
                    else roundHalfEven (n * 2 ^ nat (- ex)) d);
               v = (if 0 \<le> ex then rat_of_int m * 2 ^ nat ex else rat_of_int m / 2 ^ nat (- ex))
           in if 2 ^ 1024 \<le> v then PosInfinity else Finite v)"

subsection \<open>\<^verbatim>\<open>Number(string)\<close>\<close>

text \<open>
  \<^verbatim>\<open>Number(raw)\<close> on a string is the StringToNumber operation of ECMAScript. The string
  must match
  \<^verbatim>\<open>
  StringNumericLiteral     ::: StrWhiteSpace? | StrWhiteSpace? StrNumericLiteral StrWhiteSpace?
  StrNumericLiteral        ::: StrDecimalLiteral | NonDecimalIntegerLiteral
  StrDecimalLiteral        ::: StrUnsignedDecimalLiteral | + StrUnsignedDecimalLiteral
                             | - StrUnsignedDecimalLiteral
  StrUnsignedDecimalLiteral::: Infinity | DecimalDigits . DecimalDigits? ExponentPart?
                             | . DecimalDigits ExponentPart? | DecimalDigits ExponentPart?
  ExponentPart             ::: (e | E) (DecimalDigits | + DecimalDigits | - DecimalDigits)
  NonDecimalIntegerLiteral ::: 0 (b | B) BinaryDigits | 0 (o | O) OctalDigits | 0 (x | X) HexDigits
  \<close>
  and the result is \<open>NaN\<close> when it does not. A string of white space only is \<open>+0\<close>.
\<close>

definition isDecimalDigit :: "char \<Rightarrow> bool" where
  "isDecimalDigit c \<longleftrightarrow> 48 \<le> (of_char c :: nat) \<and> (of_char c :: nat) \<le> 57"

definition isHexDigit :: "char \<Rightarrow> bool" where
  "isHexDigit c \<longleftrightarrow>
     (let n = (of_char c :: nat)
      in (48 \<le> n \<and> n \<le> 57) \<or> (97 \<le> n \<and> n \<le> 102) \<or> (65 \<le> n \<and> n \<le> 70))"

definition digitValue :: "char \<Rightarrow> int" where
  "digitValue c =
     (let n = (of_char c :: int)
      in if n \<le> 57 then n - 48 else if 97 \<le> n then n - 87 else n - 55)"

definition isDigitOf :: "int \<Rightarrow> char \<Rightarrow> bool" where
  "isDigitOf radix c \<longleftrightarrow> isHexDigit c \<and> digitValue c < radix"

definition digitsValue :: "int \<Rightarrow> string \<Rightarrow> int" where
  "digitsValue radix ds = foldl (\<lambda>a c. a * radix + digitValue c) 0 ds"

definition DecimalDigits :: "string \<Rightarrow> bool" where
  "DecimalDigits ds \<longleftrightarrow> ds \<noteq> [] \<and> list_all isDecimalDigit ds"

text \<open>The exponent part, or nothing: the exponent it denotes, \<open>None\<close> when malformed.\<close>

definition ExponentPart :: "string \<Rightarrow> int option" where
  "ExponentPart s =
     (case s of
        [] \<Rightarrow> Some 0
      | c # t \<Rightarrow>
          if c = CHR ''e'' \<or> c = CHR ''E'' then
            (case t of
               [] \<Rightarrow> None
             | x # ds \<Rightarrow>
                 if x = CHR ''+'' then (if DecimalDigits ds then Some (digitsValue 10 ds) else None)
                 else if x = CHR ''-'' then (if DecimalDigits ds then Some (- digitsValue 10 ds) else None)
                 else (if DecimalDigits t then Some (digitsValue 10 t) else None))
          else None)"

text \<open>The double of \<open>m \<times> 10\<^sup>k\<close>.\<close>

definition scaled :: "int \<Rightarrow> int \<Rightarrow> number" where
  "scaled m k = (if 0 \<le> k then toDouble (m * 10 ^ nat k) 1 else toDouble m (10 ^ nat (- k)))"

definition StrUnsignedDecimalLiteral :: "string \<Rightarrow> number option" where
  "StrUnsignedDecimalLiteral s =
     (if s = ''Infinity'' then Some PosInfinity
      else let ip = takeWhile isDecimalDigit s;
               r1 = dropWhile isDecimalDigit s;
               fp = (case r1 of [] \<Rightarrow> [] | c # t \<Rightarrow> if c = CHR ''.'' then takeWhile isDecimalDigit t else []);
               r2 = (case r1 of [] \<Rightarrow> [] | c # t \<Rightarrow> if c = CHR ''.'' then dropWhile isDecimalDigit t else r1)
           in if ip = [] \<and> fp = [] then None
              else (case ExponentPart r2 of
                      None \<Rightarrow> None
                    | Some e \<Rightarrow> Some (scaled (digitsValue 10 (ip @ fp)) (e - int (length fp)))))"

definition negate :: "number \<Rightarrow> number" where
  "negate x =
     (case x of
        NaN \<Rightarrow> NaN
      | PosInfinity \<Rightarrow> NegInfinity
      | NegInfinity \<Rightarrow> PosInfinity
      | NegZero \<Rightarrow> Finite 0
      | Finite q \<Rightarrow> if q = 0 then NegZero else Finite (- q))"

definition StrDecimalLiteral :: "string \<Rightarrow> number option" where
  "StrDecimalLiteral s =
     (case s of
        [] \<Rightarrow> None
      | c # t \<Rightarrow>
          if c = CHR ''+'' then StrUnsignedDecimalLiteral t
          else if c = CHR ''-'' then map_option negate (StrUnsignedDecimalLiteral t)
          else StrUnsignedDecimalLiteral s)"

definition NonDecimalIntegerLiteral :: "string \<Rightarrow> number option" where
  "NonDecimalIntegerLiteral s =
     (case s of
        z # p # ds \<Rightarrow>
          if z = CHR ''0'' \<and> ds \<noteq> [] then
            (if (p = CHR ''b'' \<or> p = CHR ''B'') \<and> list_all (isDigitOf 2) ds
               then Some (toDouble (digitsValue 2 ds) 1)
             else if (p = CHR ''o'' \<or> p = CHR ''O'') \<and> list_all (isDigitOf 8) ds
               then Some (toDouble (digitsValue 8 ds) 1)
             else if (p = CHR ''x'' \<or> p = CHR ''X'') \<and> list_all (isDigitOf 16) ds
               then Some (toDouble (digitsValue 16 ds) 1)
             else None)
          else None
      | _ \<Rightarrow> None)"

definition StrNumericLiteral :: "string \<Rightarrow> number option" where
  "StrNumericLiteral s =
     (case NonDecimalIntegerLiteral s of Some n \<Rightarrow> Some n | None \<Rightarrow> StrDecimalLiteral s)"

definition Number :: "string \<Rightarrow> number" where
  "Number raw =
     (let s = trim raw
      in if s = [] then Finite 0
         else (case StrNumericLiteral s of None \<Rightarrow> NaN | Some n \<Rightarrow> n))"

subsection \<open>Tests on numbers\<close>

definition isNaN :: "number \<Rightarrow> bool" where
  "isNaN num \<longleftrightarrow> num = NaN"

definition Number_isInteger :: "number \<Rightarrow> bool" where
  "Number_isInteger num =
     (case num of Finite q \<Rightarrow> rat_of_int \<lfloor>q\<rfloor> = q | NegZero \<Rightarrow> True | _ \<Rightarrow> False)"

text \<open>\<^verbatim>\<open>a < b\<close> on numbers: false when either side is \<open>NaN\<close>; the two zeros are equal.\<close>

fun number_less :: "number \<Rightarrow> number \<Rightarrow> bool" where
  "number_less NaN _ = False"
| "number_less _ NaN = False"
| "number_less PosInfinity _ = False"
| "number_less _ PosInfinity = True"
| "number_less _ NegInfinity = False"
| "number_less NegInfinity _ = True"
| "number_less NegZero NegZero = False"
| "number_less NegZero (Finite q) = (0 < q)"
| "number_less (Finite p) NegZero = (p < 0)"
| "number_less (Finite p) (Finite q) = (p < q)"



section \<open>Errors\<close>

text \<open>
  \<^verbatim>\<open>class EnvError\<close> carries the variable's key and a list of messages; its \<^verbatim>\<open>message\<close> is
  computed from both. \<^verbatim>\<open>class EnvValidationError\<close> carries a list of \<^verbatim>\<open>EnvError\<close>.
\<close>

datatype EnvError = EnvError (EnvError_key: string) (EnvError_errors: "string list")

fun joinStrings :: "string \<Rightarrow> string list \<Rightarrow> string" where
  "joinStrings sep [] = []"
| "joinStrings sep [x] = x"
| "joinStrings sep (x # y # ys) = x @ sep @ joinStrings sep (y # ys)"

definition EnvError_message :: "EnvError \<Rightarrow> string" where
  "EnvError_message e =
     ''Environment variable '' @ quoted (EnvError_key e) @ '': '' @ joinStrings ''; '' (EnvError_errors e)"

definition EnvValidationError_message :: "EnvError list \<Rightarrow> string" where
  "EnvValidationError_message es =
     ''Environment validation failed:'' @ [CHR 0x0A] @ joinStrings [CHR 0x0A] (map EnvError_message es)"

text \<open>
  What a call of \<^verbatim>\<open>env\<close> can throw: an \<^verbatim>\<open>EnvError\<close>, or something else
  (\<^verbatim>\<open>err instanceof EnvError\<close> tells them apart): whatever a function supplied by the caller
  throws, or a \<^verbatim>\<open>TypeError\<close> of the engine. What \<^verbatim>\<open>envSchema\<close> can throw: its own
  \<^verbatim>\<open>EnvValidationError\<close>, or such a foreign value thrown again.
\<close>

datatype thrown = Thrown_EnvError EnvError | Thrown_other jsvalue

datatype schema_thrown = Thrown_EnvValidationError "EnvError list" | Rethrown jsvalue

section \<open>Configuration\<close>

text \<open>
  \<^verbatim>\<open>interface EnvVarConfig\<close>. An optional property is \<open>None\<close> when it is missing;
  \<^verbatim>\<open>default\<close> is a value, \<open>Undefined\<close> when missing, as the code tests it with
  \<^verbatim>\<open>!== undefined\<close>. \<^verbatim>\<open>type EnvType\<close> is a string at run time. The functions \<^verbatim>\<open>validate\<close> and
  \<^verbatim>\<open>transform\<close> belong to the caller: they return a value or throw.
\<close>

record EnvVarConfig =
  key :: string
  type :: "string option"
  default_value :: jsvalue
  required :: "bool option"
  validate :: "(jsvalue \<Rightarrow> thrown + jsvalue) option"
  transform :: "(jsvalue \<Rightarrow> thrown + jsvalue) option"
  choices :: "jsvalue list option"
  description :: "string option"

text \<open>An entry of \<^verbatim>\<open>interface EnvSchema\<close>: \<^verbatim>\<open>EnvVarConfig | EnvType | string\<close>.\<close>

datatype schema_entry = Shorthand string | Config EnvVarConfig

section \<open>Objects\<close>

text \<open>
  A source has the type \<^verbatim>\<open>Record<string, string | undefined>\<close>: an object whose own properties
  hold a string or \<^verbatim>\<open>undefined\<close>. \<open>own src k\<close> is \<open>None\<close> when the object has no own property
  \<open>k\<close>, \<open>Some None\<close> when the property holds \<^verbatim>\<open>undefined\<close>. An object written as a literal, and
  \<^verbatim>\<open>process.env\<close>, have \<^verbatim>\<open>Object.prototype\<close> as their prototype (\<open>inherits\<close>); an object made by
  \<^verbatim>\<open>Object.create(null)\<close> has none.
\<close>

record source_object =
  own :: "string \<rightharpoonup> string option"
  inherits :: bool

text \<open>The names of the properties of \<^verbatim>\<open>Object.prototype\<close>.\<close>

definition Object_prototype_properties :: "string list" where
  "Object_prototype_properties =
     [''constructor'', ''__defineGetter__'', ''__defineSetter__'', ''hasOwnProperty'',
      ''__lookupGetter__'', ''__lookupSetter__'', ''isPrototypeOf'', ''propertyIsEnumerable'',
      ''toString'', ''valueOf'', ''__proto__'', ''toLocaleString'']"

text \<open>
  What the property access \<^verbatim>\<open>src[k]\<close> yields when it is not \<^verbatim>\<open>undefined\<close>: the string of an own
  property, or else the object that the source inherits under that name. \<open>None\<close> is
  \<^verbatim>\<open>undefined\<close>.
\<close>

datatype property = Text string | Inherited string

definition lookup :: "source_object \<Rightarrow> string \<Rightarrow> property option" where
  "lookup src k =
     (case own src k of
        Some None \<Rightarrow> None
      | Some (Some s) \<Rightarrow> Some (Text s)
      | None \<Rightarrow> if inherits src \<and> k \<in> set Object_prototype_properties then Some (Inherited k)
                else None)"

definition propertyValue :: "property \<Rightarrow> jsvalue" where
  "propertyValue p = (case p of Text s \<Rightarrow> Str s | Inherited n \<Rightarrow> Builtin n)"

text \<open>
  What the code takes from its platform: \<^verbatim>\<open>JSON.parse\<close> (\<open>None\<close> when it throws),
  whether \<^verbatim>\<open>new URL(raw)\<close> succeeds, the string conversion of a value that is not a string,
  \<^verbatim>\<open>process.env\<close>, and \<open>readOnly n p\<close>: whether the object \<open>Builtin n\<close>, when it is the
  prototype of an object, makes the assignment of a property \<open>p\<close> to that object throw (the
  code is a module, hence strict; a native function has properties such as \<^verbatim>\<open>name\<close> that cannot
  be written).
\<close>

record platform =
  JSON_parse :: "string \<Rightarrow> jsvalue option"
  URL_valid :: "string \<Rightarrow> bool"
  ToString :: "jsvalue \<Rightarrow> string"
  readOnly :: "string \<Rightarrow> string \<Rightarrow> bool"
  process_env :: source_object

text \<open>
  The string that \<^verbatim>\<open>Number\<close>, \<^verbatim>\<open>JSON.parse\<close>, \<^verbatim>\<open>new URL\<close> and a template literal see when they are
  given what the lookup found: each of them converts an argument that is not a string to a
  string first (for an object without a \<^verbatim>\<open>valueOf\<close> of its own, \<^verbatim>\<open>Number\<close> does so too).
\<close>

definition propertyText :: "platform \<Rightarrow> property \<Rightarrow> string" where
  "propertyText P p = (case p of Text s \<Rightarrow> s | Inherited n \<Rightarrow> ToString P (Builtin n))"

text \<open>
  \<^verbatim>\<open>Object.entries(o)\<close> of an object whose own properties, in the order they were added, are
  \<open>props\<close>: the names that are array indices come first, in ascending order, then the other
  names in the order they were added. An array index is the canonical decimal numeral of an
  integer from \<open>0\<close> to \<open>2\<^sup>3\<^sup>2 - 2\<close>.
\<close>

definition isArrayIndex :: "string \<Rightarrow> bool" where
  "isArrayIndex s \<longleftrightarrow>
     DecimalDigits s \<and> (s = ''0'' \<or> hd s \<noteq> CHR ''0'') \<and> digitsValue 10 s < 2 ^ 32 - 1"

definition Object_entries :: "(string \<times> 'a) list \<Rightarrow> (string \<times> 'a) list" where
  "Object_entries props =
     sort_key (\<lambda>(name, v). digitsValue 10 name) (filter (\<lambda>(name, v). isArrayIndex name) props)
     @ filter (\<lambda>(name, v). \<not> isArrayIndex name) props"

text \<open>
  The object that \<^verbatim>\<open>envSchema\<close> builds: its own properties and its prototype. It starts as
  \<^verbatim>\<open>{}\<close>. The assignment \<^verbatim>\<open>result[name] = v\<close> adds or replaces an own property, with two
  exceptions. For the name \<^verbatim>\<open>__proto__\<close> it runs the setter inherited from \<^verbatim>\<open>Object.prototype\<close>,
  which replaces the prototype when \<open>v\<close> is an object or \<^verbatim>\<open>null\<close> and does nothing otherwise:
  no own property is added (an object whose prototype is \<^verbatim>\<open>null\<close> inherits no such setter). And
  when the prototype has become a native function, the assignment of a name that the function
  does not let through throws a \<^verbatim>\<open>TypeError\<close>.
\<close>

record result_object =
  properties :: "string \<rightharpoonup> jsvalue"
  prototype :: jsvalue

definition emptyObject :: result_object where
  "emptyObject = \<lparr>properties = Map.empty, prototype = Builtin ''__proto__''\<rparr>"

definition isObjectOrNull :: "jsvalue \<Rightarrow> bool" where
  "isObjectOrNull v =
     (case v of Undefined \<Rightarrow> False | Bool b \<Rightarrow> False | Num n \<Rightarrow> False | Str s \<Rightarrow> False | _ \<Rightarrow> True)"

definition rejects :: "platform \<Rightarrow> jsvalue \<Rightarrow> string \<Rightarrow> bool" where
  "rejects P proto name =
     (case proto of Builtin n \<Rightarrow> n \<noteq> ''__proto__'' \<and> readOnly P n name | _ \<Rightarrow> False)"

definition assign :: "platform \<Rightarrow> result_object \<Rightarrow> string \<Rightarrow> jsvalue \<Rightarrow> jsvalue + result_object" where
  "assign P obj name v =
     (if name = ''__proto__'' \<and> prototype obj \<noteq> Null
      then Inr (if isObjectOrNull v then obj\<lparr>prototype := v\<rparr> else obj)
      else if rejects P (prototype obj) name then Inl (NativeError ''TypeError'')
      else Inr (obj\<lparr>properties := (properties obj)(name \<mapsto> v)\<rparr>))"

text \<open>The calls made to the caller's functions, in the order they happen.\<close>

datatype call = TransformCall jsvalue | ValidateCall jsvalue

section \<open>Parsers\<close>

text \<open>
  The parsers on a string, the type their signatures declare. \<^verbatim>\<open>parseString\<close> returns its
  argument as it is, whatever it is.
\<close>

definition parseString :: "'a \<Rightarrow> 'a" where
  "parseString raw = raw"

definition parseNumber :: "string \<Rightarrow> string \<Rightarrow> EnvError + number" where
  "parseNumber raw k =
     (let num = Number raw
      in if isNaN num then Inl (EnvError k [''Expected a number, got '' @ quoted raw])
         else Inr num)"

definition parseBoolean :: "string \<Rightarrow> string \<Rightarrow> EnvError + bool" where
  "parseBoolean raw k =
     (let lower = trim (toLowerCase raw)
      in if lower \<in> set [''true'', ''1'', ''yes'', ''on''] then Inr True
         else if lower \<in> set [''false'', ''0'', ''no'', ''off''] then Inr False
         else Inl (EnvError k [''Expected a boolean, got '' @ quoted raw
                                 @ ''. Use true/false, 1/0, yes/no, or on/off'']))"

definition parseJson :: "platform \<Rightarrow> string \<Rightarrow> string \<Rightarrow> EnvError + jsvalue" where
  "parseJson P raw k =
     (case JSON_parse P raw of
        Some v \<Rightarrow> Inr v
      | None \<Rightarrow> Inl (EnvError k [''Expected valid JSON, got '' @ quoted raw]))"

definition parseUrl :: "platform \<Rightarrow> string \<Rightarrow> string \<Rightarrow> EnvError + string" where
  "parseUrl P raw k =
     (if URL_valid P raw then Inr raw
      else Inl (EnvError k [''Expected a valid URL, got '' @ quoted raw]))"

definition parsePort :: "string \<Rightarrow> string \<Rightarrow> EnvError + number" where
  "parsePort raw k =
     (let num = Number raw
      in if isNaN num \<or> \<not> Number_isInteger num \<or> number_less num (Finite 0)
            \<or> number_less (Finite 65535) num
         then Inl (EnvError k [''Expected a port (0-65535), got '' @ quoted raw])
         else Inr num)"

section \<open>Core\<close>

definition validTypes :: "string list" where
  "validTypes = [''string'', ''number'', ''boolean'', ''json'', ''url'', ''port'', ''enum'']"

text \<open>The object literal \<^verbatim>\<open>{ key, type }\<close>: every other property is missing.\<close>

definition keyType :: "string \<Rightarrow> string \<Rightarrow> EnvVarConfig" where
  "keyType k t =
     \<lparr>key = k, type = Some t, default_value = Undefined, required = None, validate = None,
      transform = None, choices = None, description = None\<rparr>"

definition normalizeConfig :: "schema_entry \<Rightarrow> string \<Rightarrow> EnvVarConfig" where
  "normalizeConfig input k =
     (case input of
        Shorthand s \<Rightarrow> if s \<in> set validTypes then keyType k s else keyType k ''string''
      | Config c \<Rightarrow> c\<lparr>key := (if key c = [] then k else key c)\<rparr>)"

text \<open>
  \<^verbatim>\<open>parseValue(raw, config)\<close> on what the lookup found. On a string the parsers are as above.
  On an inherited object, \<^verbatim>\<open>parseString\<close> and \<^verbatim>\<open>parseUrl\<close> return the object itself,
  \<^verbatim>\<open>parseNumber\<close>, \<^verbatim>\<open>parseJson\<close>, \<^verbatim>\<open>parseUrl\<close> and \<^verbatim>\<open>parsePort\<close> work on its string conversion, and
  \<^verbatim>\<open>parseBoolean\<close> throws a \<^verbatim>\<open>TypeError\<close>, since \<^verbatim>\<open>raw.toLowerCase\<close> is not a function.
\<close>

definition parseValue :: "platform \<Rightarrow> property \<Rightarrow> EnvVarConfig \<Rightarrow> thrown + jsvalue" where
  "parseValue P raw config =
     (let ty = (case type config of None \<Rightarrow> ''string'' | Some t \<Rightarrow> if t = [] then ''string'' else t);
          k = key config;
          text = propertyText P raw
      in if ty = ''string'' then Inr (propertyValue (parseString raw))
         else if ty = ''number'' then map_sum Thrown_EnvError Num (parseNumber text k)
         else if ty = ''boolean'' then
           (case raw of
              Text s \<Rightarrow> map_sum Thrown_EnvError Bool (parseBoolean s k)
            | Inherited n \<Rightarrow> Inl (Thrown_other (NativeError ''TypeError'')))
         else if ty = ''json'' then map_sum Thrown_EnvError id (parseJson P text k)
         else if ty = ''url'' then map_sum Thrown_EnvError (\<lambda>u. propertyValue raw) (parseUrl P text k)
         else if ty = ''port'' then map_sum Thrown_EnvError Num (parsePort text k)
         else if ty = ''enum'' then Inr (propertyValue (parseString raw))
         else Inr (propertyValue raw))"

text \<open>
  \<^verbatim>\<open>choices.includes(value)\<close> compares with SameValueZero. The value sought is what
  \<^verbatim>\<open>parseString\<close> returned: a string, which is the same value as another exactly when their
  contents are equal, or an inherited object, which is the same value as itself only.
  \<^verbatim>\<open>choices.join(", ")\<close> writes a string as it is, \<^verbatim>\<open>undefined\<close> and \<^verbatim>\<open>null\<close> as nothing, and
  anything else through its string conversion.
\<close>

definition Array_includes :: "jsvalue list \<Rightarrow> jsvalue \<Rightarrow> bool" where
  "Array_includes xs v \<longleftrightarrow> v \<in> set xs"

definition joinElement :: "platform \<Rightarrow> jsvalue \<Rightarrow> string" where
  "joinElement P v =
     (case v of Undefined \<Rightarrow> [] | Null \<Rightarrow> [] | Str s \<Rightarrow> s | _ \<Rightarrow> ToString P v)"

definition Array_join :: "platform \<Rightarrow> jsvalue list \<Rightarrow> string \<Rightarrow> string" where
  "Array_join P xs sep = joinStrings sep (map (joinElement P) xs)"

text \<open>\<^verbatim>\<open>source ?? process.env\<close>\<close>

definition theSource :: "platform \<Rightarrow> source_object option \<Rightarrow> source_object" where
  "theSource P source = (case source of None \<Rightarrow> process_env P | Some s \<Rightarrow> s)"

text \<open>
  \<^verbatim>\<open>env(config, source)\<close>, lines 158 to 202. The result is the list of calls made to
  \<^verbatim>\<open>transform\<close> and \<^verbatim>\<open>validate\<close>, and the value returned (\<open>Inr\<close>) or thrown (\<open>Inl\<close>).
\<close>

definition env :: "platform \<Rightarrow> EnvVarConfig \<Rightarrow> source_object option
    \<Rightarrow> call list \<times> (thrown + jsvalue)" where
  "env P config source =
     (let src = theSource P source;
          raw = lookup src (key config)
      in if raw = None \<or> raw = Some (Text []) then
           (if default_value config \<noteq> Undefined then ([], Inr (default_value config))
            else if required config = Some False then ([], Inr Undefined)
            else ([], Inl (Thrown_EnvError (EnvError (key config) [''Required but not set'']))))
         else
           (case parseValue P (the raw) config of
              Inl t \<Rightarrow> ([], Inl t)
            | Inr parsed \<Rightarrow>
                if type config = Some ''enum'' \<and> choices config \<noteq> None
                   \<and> \<not> Array_includes (the (choices config)) parsed
                then ([], Inl (Thrown_EnvError (EnvError (key config)
                        [''Expected one of ['' @ Array_join P (the (choices config)) '', ''
                           @ ''], got '' @ quoted (propertyText P (the raw))])))
                else
                  (case (case transform config of
                           None \<Rightarrow> ([], Inr parsed)
                         | Some f \<Rightarrow> ([TransformCall parsed], f parsed)) of
                     (calls, Inl x) \<Rightarrow> (calls, Inl x)
                   | (calls, Inr val) \<Rightarrow>
                       (case validate config of
                          None \<Rightarrow> (calls, Inr val)
                        | Some g \<Rightarrow>
                            (case g val of
                               Inl x \<Rightarrow> (calls @ [ValidateCall val], Inl x)
                             | Inr result \<Rightarrow>
                                 if result = Bool False
                                 then (calls @ [ValidateCall val],
                                       Inl (Thrown_EnvError (EnvError (key config) [''Failed custom validation''])))
                                 else (case result of
                                         Str msg \<Rightarrow> (calls @ [ValidateCall val],
                                                      Inl (Thrown_EnvError (EnvError (key config) [msg])))
                                       | _ \<Rightarrow> (calls @ [ValidateCall val], Inr val)))))))"

text \<open>
  \<^verbatim>\<open>envSchema(schema, source)\<close>, lines 228 to 253. A schema is given by its own properties in
  the order they were declared, and the loop runs over \<^verbatim>\<open>Object.entries(schema)\<close>. It carries
  \<^verbatim>\<open>result\<close>, \<^verbatim>\<open>errors\<close> and the calls made so far; it stops with \<open>Inl\<close> when \<^verbatim>\<open>throw err\<close> leaves
  it, which a \<^verbatim>\<open>TypeError\<close> of the assignment also does, the assignment being inside the
  \<^verbatim>\<open>try\<close> block.
\<close>

fun envSchema_loop :: "platform \<Rightarrow> source_object option \<Rightarrow> (string \<times> schema_entry) list
    \<Rightarrow> result_object \<Rightarrow> EnvError list \<Rightarrow> call list
    \<Rightarrow> call list \<times> (jsvalue + result_object \<times> EnvError list)" where
  "envSchema_loop P source [] result errs calls = (calls, Inr (result, errs))"
| "envSchema_loop P source ((name, rawConfig) # rest) result errs calls =
     (let config = normalizeConfig rawConfig name
      in case env P config source of
           (cs, Inr v) \<Rightarrow>
             (case assign P result name v of
                Inr result' \<Rightarrow> envSchema_loop P source rest result' errs (calls @ cs)
              | Inl x \<Rightarrow> (calls @ cs, Inl x))
         | (cs, Inl (Thrown_EnvError err)) \<Rightarrow>
             envSchema_loop P source rest result (errs @ [err]) (calls @ cs)
         | (cs, Inl (Thrown_other x)) \<Rightarrow> (calls @ cs, Inl x))"

definition envSchema :: "platform \<Rightarrow> (string \<times> schema_entry) list \<Rightarrow> source_object option
    \<Rightarrow> call list \<times> (schema_thrown + result_object)" where
  "envSchema P schema source =
     (case envSchema_loop P source (Object_entries schema) emptyObject [] [] of
        (calls, Inl x) \<Rightarrow> (calls, Inl (Rethrown x))
      | (calls, Inr (result, errs)) \<Rightarrow>
          if 0 < length errs then (calls, Inl (Thrown_EnvValidationError errs))
          else (calls, Inr result))"


section \<open>Notions used in the statements\<close>

text \<open>The integer that a number denotes, when it denotes one (negative zero denotes \<open>0\<close>).\<close>

definition integerValue :: "number \<Rightarrow> int option" where
  "integerValue num =
     (case num of
        Finite q \<Rightarrow> if rat_of_int \<lfloor>q\<rfloor> = q then Some \<lfloor>q\<rfloor> else None
      | NegZero \<Rightarrow> Some 0
      | _ \<Rightarrow> None)"

text \<open>
  The outcome of every field of a list of entries, each resolved on its own: the entry
  normalised with its name, then \<^verbatim>\<open>env\<close>.
\<close>

definition fieldOutcomes :: "platform \<Rightarrow> (string \<times> schema_entry) list \<Rightarrow> source_object option
    \<Rightarrow> (string \<times> call list \<times> (thrown + jsvalue)) list" where
  "fieldOutcomes P entries source =
     map (\<lambda>(name, rawConfig). (name, env P (normalizeConfig rawConfig name) source)) entries"

text \<open>
  Over such a list of outcomes: the first fault that is not an \<^verbatim>\<open>EnvError\<close>, if any; the
  \<^verbatim>\<open>EnvError\<close>s in order; the values of the fields that succeeded, a later field of the same
  name replacing an earlier one; and the calls made by the fields up to and including the
  first one whose fault is not an \<^verbatim>\<open>EnvError\<close>.
\<close>

fun firstOther :: "(string \<times> call list \<times> (thrown + jsvalue)) list \<Rightarrow> jsvalue option" where
  "firstOther [] = None"
| "firstOther ((name, cs, Inl (Thrown_other x)) # rest) = Some x"
| "firstOther ((name, cs, r) # rest) = firstOther rest"

fun fieldErrors :: "(string \<times> call list \<times> (thrown + jsvalue)) list \<Rightarrow> EnvError list" where
  "fieldErrors [] = []"
| "fieldErrors ((name, cs, Inl (Thrown_EnvError e)) # rest) = e # fieldErrors rest"
| "fieldErrors ((name, cs, r) # rest) = fieldErrors rest"

fun fieldValues :: "(string \<times> call list \<times> (thrown + jsvalue)) list \<Rightarrow> (string \<times> jsvalue) list" where
  "fieldValues [] = []"
| "fieldValues ((name, cs, Inr v) # rest) = (name, v) # fieldValues rest"
| "fieldValues ((name, cs, r) # rest) = fieldValues rest"

fun callsMade :: "(string \<times> call list \<times> (thrown + jsvalue)) list \<Rightarrow> call list" where
  "callsMade [] = []"
| "callsMade ((name, cs, Inl (Thrown_other x)) # rest) = cs"
| "callsMade ((name, cs, r) # rest) = cs @ callsMade rest"

text \<open>
  The test of lines 177 and 178: the type is \<^verbatim>\<open>enum\<close>, there are choices, and the parsed value
  is not among them.
\<close>

definition enumRejects :: "EnvVarConfig \<Rightarrow> jsvalue \<Rightarrow> bool" where
  "enumRejects config parsed \<longleftrightarrow>
     type config = Some ''enum'' \<and> choices config \<noteq> None
     \<and> \<not> Array_includes (the (choices config)) parsed"

text \<open>What \<^verbatim>\<open>env\<close> makes of the value that \<^verbatim>\<open>validate\<close> returned, lines 193 to 201.\<close>

definition validated :: "string \<Rightarrow> jsvalue \<Rightarrow> jsvalue \<Rightarrow> thrown + jsvalue" where
  "validated k val result =
     (if result = Bool False then Inl (Thrown_EnvError (EnvError k [''Failed custom validation'']))
      else case result of
             Str msg \<Rightarrow> Inl (Thrown_EnvError (EnvError k [msg]))
           | _ \<Rightarrow> Inr val)"

section \<open>Configurations of the test suite\<close>

text \<open>
  \<^verbatim>\<open>tests/env.test.ts\<close>: \<^verbatim>\<open>mockEnv\<close> returns the object literal it is given, an object with the
  listed properties (a later one replacing an earlier one of the same name, and
  \<^verbatim>\<open>__proto__\<close> in a literal adding none) that inherits from \<^verbatim>\<open>Object.prototype\<close>. The test
  \<^verbatim>\<open>transform runs before validate\<close> uses \<^verbatim>\<open>(v) => Math.abs(v as number)\<close> and
  \<^verbatim>\<open>(v) => (v as number) > 0\<close>, which are given here on numbers.
\<close>

definition mockEnv :: "(string \<times> string) list \<Rightarrow> source_object" where
  "mockEnv vars =
     \<lparr>own = map_of (rev (map (\<lambda>(k, v). (k, Some v)) (filter (\<lambda>(k, v). k \<noteq> ''__proto__'') vars))),
      inherits = True\<rparr>"

definition Math_abs :: "number \<Rightarrow> number" where
  "Math_abs x =
     (case x of
        NaN \<Rightarrow> NaN
      | PosInfinity \<Rightarrow> PosInfinity
      | NegInfinity \<Rightarrow> PosInfinity
      | NegZero \<Rightarrow> Finite 0
      | Finite q \<Rightarrow> Finite \<bar>q\<bar>)"

definition absTransform :: "jsvalue \<Rightarrow> thrown + jsvalue" where
  "absTransform v = (case v of Num n \<Rightarrow> Inr (Num (Math_abs n)) | _ \<Rightarrow> Inr v)"

definition positiveValidate :: "jsvalue \<Rightarrow> thrown + jsvalue" where
  "positiveValidate v = (case v of Num n \<Rightarrow> Inr (Bool (number_less (Finite 0) n)) | _ \<Rightarrow> Inr (Bool False))"

text \<open>The test \<^verbatim>\<open>custom validate (returns string error)\<close>: \<^verbatim>\<open>(v) => (v as number) > 0 || "Must be positive"\<close>.\<close>

definition positiveOrMessage :: "jsvalue \<Rightarrow> thrown + jsvalue" where
  "positiveOrMessage v =
     (case v of
        Num n \<Rightarrow> Inr (if number_less (Finite 0) n then Bool True else Str ''Must be positive'')
      | _ \<Rightarrow> Inr (Str ''Must be positive''))"

text \<open>
  More functions a caller may supply: a \<^verbatim>\<open>validate\<close> that returns the empty string,
  \<^verbatim>\<open>() => ""\<close>, a \<^verbatim>\<open>transform\<close> that throws, \<^verbatim>\<open>() => { throw "boom" }\<close>, and the identity
  \<^verbatim>\<open>(v) => v\<close>. And a platform with an empty \<^verbatim>\<open>process.env\<close>, which prints the inherited
  objects the way V8 does, and whose other parts the examples do not reach.
\<close>

definition emptyStringValidate :: "jsvalue \<Rightarrow> thrown + jsvalue" where
  "emptyStringValidate v = Inr (Str [])"

definition throwingTransform :: "jsvalue \<Rightarrow> thrown + jsvalue" where
  "throwingTransform v = Inl (Thrown_other (Str ''boom''))"



definition nativeText :: "jsvalue \<Rightarrow> string" where
  "nativeText v =
     (case v of
        Builtin n \<Rightarrow>
          if n = ''__proto__'' then ''[object Object]''
          else ''function '' @ (if n = ''constructor'' then ''Object'' else n) @ ''() { [native code] }''
      | _ \<Rightarrow> [])"

definition testPlatform :: platform where
  "testPlatform =
     \<lparr>JSON_parse = (\<lambda>raw. None), URL_valid = (\<lambda>raw. False), ToString = nativeText,
      readOnly = (\<lambda>n p. p \<in> set [''name'', ''length'']), process_env = mockEnv []\<rparr>"

text \<open>The object literal \<^verbatim>\<open>{ key }\<close>, to which the examples add properties.\<close>

definition keyOnly :: "string \<Rightarrow> EnvVarConfig" where
  "keyOnly k =
     \<lparr>key = k, type = None, default_value = Undefined, required = None, validate = None,
      transform = None, choices = None, description = None\<rparr>"


section \<open>Facts about numbers\<close>

lemma roundHalfEven_one: "roundHalfEven a 1 = a"
  by (simp add: roundHalfEven_def)

lemma ilog2_int:
  assumes "0 < n"
  shows "ilog2 n 1 = bitlen n - 1"
proof -
  have b1: "bitlen 1 = 1" by (simp add: bitlen_alt_def)
  from bitlen_bounds [OF assms] have "2 ^ nat (bitlen n - 1) \<le> n" by simp
  moreover have "1 \<le> bitlen n" using assms by (simp add: bitlen_alt_def)
  ultimately show ?thesis by (simp add: ilog2_def pow2_le_def b1)
qed

lemma bitlen_less_pow2:
  assumes "0 < n" and "n < 2 ^ k"
  shows "bitlen n \<le> int k"
proof -
  from bitlen_bounds [OF assms(1)] have "(2::int) ^ nat (bitlen n - 1) < 2 ^ k"
    using assms(2) by linarith
  then have "nat (bitlen n - 1) < k" by simp
  then show ?thesis by linarith
qed

text \<open>An integer below \<open>2\<^sup>5\<^sup>3\<close> is a double: rounding leaves it as it is.\<close>

lemma toDouble_int:
  assumes "0 < n" and "n < 2 ^ 53"
  shows "toDouble n 1 = Finite (rat_of_int n)"
proof -
  have e: "ilog2 n 1 = bitlen n - 1" by (rule ilog2_int [OF assms(1)])
  have lo: "1 \<le> bitlen n" using assms(1) by (simp add: bitlen_alt_def)
  have hi: "bitlen n \<le> 53" using bitlen_less_pow2 [OF assms] by simp
  define j where "j = nat (53 - bitlen n)"
  have ex: "max (ilog2 n 1 - 52) (- 1074) = - int j" using lo hi by (simp add: j_def e)
  have "n < 2 ^ 1024" using assms(2) by (rule less_trans) simp
  then have "rat_of_int n < rat_of_int (2 ^ 1024)" by (simp only: of_int_less_iff)
  then have small: "\<not> 2 ^ 1024 \<le> rat_of_int n" by simp
  have n0: "n \<noteq> 0" using assms(1) by simp
  show ?thesis
  proof (cases "j = 0")
    case True
    then show ?thesis unfolding toDouble_def Let_def ex
      using small n0 by (simp add: roundHalfEven_one)
  next
    case False
    then have neg: "\<not> 0 \<le> - int j" by simp
    show ?thesis unfolding toDouble_def Let_def ex
      using small n0 neg by (simp add: roundHalfEven_one)
  qed
qed

lemma toDouble_not_NaN: "toDouble n d \<noteq> NaN"
  by (simp add: toDouble_def Let_def)

lemma toDouble_not_NegZero: "toDouble n d \<noteq> NegZero"
  by (simp add: toDouble_def Let_def)

lemma toDouble_not_NegInfinity: "toDouble n d \<noteq> NegInfinity"
  by (simp add: toDouble_def Let_def)

lemmas Number_eval = Number_def trim_def isWhiteSpace_def StrNumericLiteral_def
  NonDecimalIntegerLiteral_def StrDecimalLiteral_def StrUnsignedDecimalLiteral_def
  isDecimalDigit_def ExponentPart_def scaled_def digitsValue_def digitValue_def
  negate_def Let_def toDouble_int

lemma Number_minus_5: "Number ''-5'' = Finite (- 5)"
  by (simp add: Number_eval)

lemma Number_0: "Number ''0'' = Finite 0"
  by (simp add: Number_eval toDouble_def)

lemma Number_65535: "Number ''65535'' = Finite 65535"
  by (simp add: Number_eval)

lemma Number_minus_1: "Number ''-1'' = Finite (- 1)"
  by (simp add: Number_eval)

lemma Number_99999: "Number ''99999'' = Finite 99999"
  by (simp add: Number_eval)

lemma Number_space: "Number '' '' = Finite 0"
  by (simp add: Number_eval)

lemmas String_eval = toLowerCase_def toLowerCaseChar_def trim_def isWhiteSpace_def char_of_def
  bit_Suc_0_iff


section \<open>Facts about objects\<close>

declare parseString_def [simp]

lemmas lookup_eval = lookup_def theSource_def mockEnv_def Object_prototype_properties_def

lemma insort_key_map:
  "insort_key f (h x) (map h xs) = map h (insort_key (f \<circ> h) x xs)"
  by (induction xs) simp_all

lemma sort_key_map: "sort_key f (map h xs) = map h (sort_key (f \<circ> h) xs)"
  by (induction xs) (simp_all add: insort_key_map o_def)

text \<open>\<^verbatim>\<open>Object.entries\<close> looks at the names only.\<close>

lemma Object_entries_map:
  assumes "\<And>e. fst (h e) = fst e"
  shows "Object_entries (map h props) = map h (Object_entries props)"
proof -
  have index: "(\<lambda>(name, v). isArrayIndex name) \<circ> h = (\<lambda>(name, v). isArrayIndex name)"
    and other: "(\<lambda>(name, v). \<not> isArrayIndex name) \<circ> h = (\<lambda>(name, v). \<not> isArrayIndex name)"
    and order: "(\<lambda>(name, v). digitsValue 10 name) \<circ> h = (\<lambda>(name, v). digitsValue 10 name)"
    by (simp_all add: fun_eq_iff case_prod_beta assms)
  show ?thesis
    unfolding Object_entries_def
    by (simp only: filter_map sort_key_map map_append index other order)
qed

lemma set_Object_entries: "set (Object_entries props) = set props"
  by (auto simp: Object_entries_def)

lemma length_Object_entries: "length (Object_entries props) = length props"
proof -
  have other: "filter (\<lambda>(name, v). \<not> isArrayIndex name) props
      = filter (\<lambda>x. \<not> (case x of (name, v) \<Rightarrow> isArrayIndex name)) props"
    by (simp add: case_prod_unfold)
  show ?thesis
    unfolding Object_entries_def
    by (simp only: length_append length_sort other sum_length_filter_compl)
qed

lemma Object_entries_plain:
  assumes "\<forall>name \<in> fst ` set props. \<not> isArrayIndex name"
  shows "Object_entries props = props"
proof -
  from assms have "filter (\<lambda>(name, v). isArrayIndex name) props = []"
    by (auto simp: filter_empty_conv)
  moreover from assms have "filter (\<lambda>(name, v). \<not> isArrayIndex name) props = props"
    by (auto simp: filter_id_conv)
  ultimately show ?thesis by (simp add: Object_entries_def)
qed

text \<open>
  The order of \<^verbatim>\<open>Object.entries\<close>: the properties whose names are array indices, in ascending
  order, then the others as they were added.
\<close>

lemma Object_entries_indices:
  "filter (\<lambda>(name, v). isArrayIndex name) (Object_entries props)
     = sort_key (\<lambda>(name, v). digitsValue 10 name) (filter (\<lambda>(name, v). isArrayIndex name) props)"
proof -
  have "filter (\<lambda>(name, v). isArrayIndex name) (filter (\<lambda>(name, v). \<not> isArrayIndex name) props) = []"
    by (auto simp: filter_empty_conv)
  then show ?thesis
    by (simp add: Object_entries_def filter_sort)
qed

lemma Object_entries_order:
  "Object_entries props
     = filter (\<lambda>(name, v). isArrayIndex name) (Object_entries props)
       @ filter (\<lambda>(name, v). \<not> isArrayIndex name) props"
  "sorted (map (\<lambda>(name, v). digitsValue 10 name)
     (filter (\<lambda>(name, v). isArrayIndex name) (Object_entries props)))"
proof -
  show "Object_entries props
     = filter (\<lambda>(name, v). isArrayIndex name) (Object_entries props)
       @ filter (\<lambda>(name, v). \<not> isArrayIndex name) props"
    unfolding Object_entries_indices by (simp add: Object_entries_def)
  show "sorted (map (\<lambda>(name, v). digitsValue 10 name)
     (filter (\<lambda>(name, v). isArrayIndex name) (Object_entries props)))"
    unfolding Object_entries_indices by (rule sorted_sort_key)
qed

lemma letter_not_index: "\<not> isDecimalDigit c \<Longrightarrow> \<not> isArrayIndex (c # s)"
  by (simp add: isArrayIndex_def DecimalDigits_def)

text \<open>
  An object whose prototype is \<^verbatim>\<open>Object.prototype\<close> takes the assignment of any name but
  \<^verbatim>\<open>__proto__\<close> as an own property.
\<close>

lemma assign_property:
  assumes "prototype result = Builtin ''__proto__''" and "name \<noteq> ''__proto__''"
  shows "assign P result name v = Inr (result\<lparr>properties := (properties result)(name \<mapsto> v)\<rparr>)"
  using assms by (simp add: assign_def rejects_def)

text \<open>One turn of the loop of \<^verbatim>\<open>envSchema\<close>.\<close>

lemma loop_step_value:
  assumes "env P (normalizeConfig rawConfig name) source = (cs, Inr v)"
    and "assign P result name v = Inr result'"
  shows "envSchema_loop P source ((name, rawConfig) # rest) result errs calls
       = envSchema_loop P source rest result' errs (calls @ cs)"
  using assms by simp

lemma loop_step_rejected:
  assumes "env P (normalizeConfig rawConfig name) source = (cs, Inr v)"
    and "assign P result name v = Inl x"
  shows "envSchema_loop P source ((name, rawConfig) # rest) result errs calls = (calls @ cs, Inl x)"
  using assms by simp

lemma loop_step_error:
  assumes "env P (normalizeConfig rawConfig name) source = (cs, Inl (Thrown_EnvError err))"
  shows "envSchema_loop P source ((name, rawConfig) # rest) result errs calls
       = envSchema_loop P source rest result (errs @ [err]) (calls @ cs)"
  using assms by simp

lemma loop_step_other:
  assumes "env P (normalizeConfig rawConfig name) source = (cs, Inl (Thrown_other x))"
  shows "envSchema_loop P source ((name, rawConfig) # rest) result errs calls = (calls @ cs, Inl x)"
  using assms by simp
section \<open>The value is not set\<close>





section \<open>The boolean parser\<close>

text \<open>
  C7. \<^verbatim>\<open>parseBoolean\<close> lowercases and trims the raw string. It returns \<^verbatim>\<open>true\<close> exactly when
  the result is one of \<^verbatim>\<open>true\<close>, \<^verbatim>\<open>1\<close>, \<^verbatim>\<open>yes\<close>, \<^verbatim>\<open>on\<close>, returns \<^verbatim>\<open>false\<close> exactly when it is one
  of \<^verbatim>\<open>false\<close>, \<^verbatim>\<open>0\<close>, \<^verbatim>\<open>no\<close>, \<^verbatim>\<open>off\<close>, and throws an \<^verbatim>\<open>EnvError\<close> with one message for any
  other literal.
\<close>

theorem parseBoolean_literals:
  "(parseBoolean raw k = Inr True
      \<longleftrightarrow> trim (toLowerCase raw) \<in> set [''true'', ''1'', ''yes'', ''on''])
   \<and> (parseBoolean raw k = Inr False
      \<longleftrightarrow> trim (toLowerCase raw) \<in> set [''false'', ''0'', ''no'', ''off''])
   \<and> (trim (toLowerCase raw)
        \<notin> set [''true'', ''1'', ''yes'', ''on'', ''false'', ''0'', ''no'', ''off'']
      \<longrightarrow> parseBoolean raw k = Inl (EnvError k [''Expected a boolean, got '' @ quoted raw
                                 @ ''. Use true/false, 1/0, yes/no, or on/off'']))"
  by (auto simp: parseBoolean_def Let_def)

theorem parseBoolean_literals_witness:
  "parseBoolean '' YES '' ''B'' = Inr True
   \<and> parseBoolean ''Off'' ''B'' = Inr False
   \<and> trim (toLowerCase ''maybe'')
        \<notin> set [''true'', ''1'', ''yes'', ''on'', ''false'', ''0'', ''no'', ''off'']
   \<and> parseBoolean ''maybe'' ''B'' = Inl (EnvError ''B'' [''Expected a boolean, got '' @ quoted ''maybe''
                                 @ ''. Use true/false, 1/0, yes/no, or on/off''])"
proof -
  have y: "trim (toLowerCase '' YES '') = ''yes''" by (simp add: String_eval)
  have f: "trim (toLowerCase ''Off'') = ''off''" by (simp add: String_eval)
  have m: "trim (toLowerCase ''maybe'') = ''maybe''" by (simp add: String_eval)
  show ?thesis
    using parseBoolean_literals [of "'' YES ''" "''B''"] parseBoolean_literals [of "''Off''" "''B''"]
          parseBoolean_literals [of "''maybe''" "''B''"]
    by (simp add: y f m)
qed

section \<open>The value is set\<close>






lemma env_validate_returns:
  assumes "lookup (theSource P source) (key config) = Some raw" and "raw \<noteq> Text []"
    and "parseValue P raw config = Inr x" and "\<not> enumRejects config x"
    and "validate config = Some g"
  shows "transform config = None \<Longrightarrow> g x = Inr result
           \<Longrightarrow> env P config source = ([ValidateCall x], validated (key config) x result)"
    and "transform config = Some f \<Longrightarrow> f x = Inr y \<Longrightarrow> g y = Inr result
           \<Longrightarrow> env P config source
               = ([TransformCall x, ValidateCall y], validated (key config) y result)"
  using assms by (auto simp: env_def Let_def enumRejects_def validated_def split: jsvalue.splits)

lemma validated_cases:
  "validated k val (Bool False) = Inl (Thrown_EnvError (EnvError k [''Failed custom validation'']))"
  "validated k val (Str msg) = Inl (Thrown_EnvError (EnvError k [msg]))"
  "result \<noteq> Bool False \<Longrightarrow> (\<And>msg. result \<noteq> Str msg) \<Longrightarrow> validated k val result = Inr val"
  by (auto simp: validated_def split: jsvalue.splits)


section \<open>Transform runs before validate\<close>




section \<open>What validate returns\<close>

text \<open>
  C4, as the code has it. With a \<^verbatim>\<open>validate\<close> function and a raw value that parsed and passed the
  \<^verbatim>\<open>enum\<close> test, let \<open>y\<close> be the value given to \<^verbatim>\<open>validate\<close> (the parsed value, or what
  \<^verbatim>\<open>transform\<close> returned). When \<^verbatim>\<open>validate\<close> returns \<^verbatim>\<open>false\<close>, \<^verbatim>\<open>env\<close> throws an \<^verbatim>\<open>EnvError\<close>
  with the message \<^verbatim>\<open>Failed custom validation\<close>; when it returns a string, empty or not,
  \<^verbatim>\<open>env\<close> throws an \<^verbatim>\<open>EnvError\<close> with that string as its message; when it returns anything that
  is neither \<^verbatim>\<open>false\<close> nor a string, \<^verbatim>\<open>env\<close> returns \<open>y\<close>.
\<close>

theorem env_validate_result:
  assumes "lookup (theSource P source) (key config) = Some raw" and "raw \<noteq> Text []"
    and "parseValue P raw config = Inr x" and "\<not> enumRejects config x"
    and "(transform config = None \<and> y = x) \<or> (\<exists>f. transform config = Some f \<and> f x = Inr y)"
    and "validate config = Some g" and "g y = Inr result"
  shows "(result = Bool False \<longrightarrow>
            snd (env P config source)
              = Inl (Thrown_EnvError (EnvError (key config) [''Failed custom validation''])))
       \<and> (\<forall>msg. result = Str msg \<longrightarrow>
            snd (env P config source) = Inl (Thrown_EnvError (EnvError (key config) [msg])))
       \<and> (result \<noteq> Bool False \<and> (\<forall>msg. result \<noteq> Str msg) \<longrightarrow>
            snd (env P config source) = Inr y)"
proof -
  have "snd (env P config source) = validated (key config) y result"
  proof (cases "transform config")
    case None
    with assms(5) have "y = x" by auto
    with env_validate_returns(1) [OF assms(1-4) assms(6) None] assms(7) show ?thesis by simp
  next
    case (Some f)
    with assms(5) have "f x = Inr y" by auto
    from env_validate_returns(2) [OF assms(1-4) assms(6) Some this assms(7)] show ?thesis by simp
  qed
  then show ?thesis by (auto simp: validated_cases)
qed

theorem env_validate_result_witness:
  "snd (env testPlatform ((keyOnly ''N'')\<lparr>type := Some ''number'', validate := Some positiveValidate\<rparr>)
          (Some (mockEnv [(''N'', ''-5'')])))
     = Inl (Thrown_EnvError (EnvError ''N'' [''Failed custom validation'']))
   \<and> snd (env testPlatform ((keyOnly ''N'')\<lparr>type := Some ''number'', transform := Some absTransform,
                                             validate := Some positiveValidate\<rparr>)
          (Some (mockEnv [(''N'', ''-5'')])))
     = Inr (Num (Finite 5))
   \<and> snd (env testPlatform ((keyOnly ''N'')\<lparr>type := Some ''number'', validate := Some positiveOrMessage\<rparr>)
          (Some (mockEnv [(''N'', ''-5'')])))
     = Inl (Thrown_EnvError (EnvError ''N'' [''Must be positive'']))"
proof -
  let ?m = "(keyOnly ''N'')\<lparr>type := Some ''number'', validate := Some positiveOrMessage\<rparr>"
  have m: "lookup (theSource testPlatform (Some (mockEnv [(''N'', ''-5'')]))) (key ?m) = Some (Text ''-5'')"
    "parseValue testPlatform (Text ''-5'') ?m = Inr (Num (Finite (- 5)))"
    "\<not> enumRejects ?m (Num (Finite (- 5)))"
    "(transform ?m = None \<and> Num (Finite (- 5)) = Num (Finite (- 5)))
       \<or> (\<exists>f. transform ?m = Some f \<and> f (Num (Finite (- 5))) = Inr (Num (Finite (- 5))))"
    "validate ?m = Some positiveOrMessage"
    "positiveOrMessage (Num (Finite (- 5))) = Inr (Str ''Must be positive'')"
    by (simp_all add: lookup_eval keyOnly_def parseValue_def parseNumber_def propertyText_def
          isNaN_def Number_minus_5 enumRejects_def positiveOrMessage_def)
  let ?c = "(keyOnly ''N'')\<lparr>type := Some ''number'', validate := Some positiveValidate\<rparr>"
  let ?d = "(keyOnly ''N'')\<lparr>type := Some ''number'', transform := Some absTransform,
                           validate := Some positiveValidate\<rparr>"
  let ?s = "Some (mockEnv [(''N'', ''-5'')])"
  have src: "lookup (theSource testPlatform ?s) (key ?c) = Some (Text ''-5'')"
    "lookup (theSource testPlatform ?s) (key ?d) = Some (Text ''-5'')"
    by (simp_all add: lookup_eval keyOnly_def)
  have ne: "Text ''-5'' \<noteq> Text []" by simp
  have p: "parseValue testPlatform (Text ''-5'') ?c = Inr (Num (Finite (- 5)))"
    "parseValue testPlatform (Text ''-5'') ?d = Inr (Num (Finite (- 5)))"
    by (simp_all add: parseValue_def keyOnly_def parseNumber_def isNaN_def Number_minus_5
          propertyText_def)
  have en: "\<not> enumRejects ?c (Num (Finite (- 5)))" "\<not> enumRejects ?d (Num (Finite (- 5)))"
    by (simp_all add: enumRejects_def keyOnly_def)
  have tr: "(transform ?c = None \<and> Num (Finite (- 5)) = Num (Finite (- 5)))
            \<or> (\<exists>f. transform ?c = Some f \<and> f (Num (Finite (- 5))) = Inr (Num (Finite (- 5))))"
    "(transform ?d = None \<and> Num (Finite 5) = Num (Finite (- 5)))
            \<or> (\<exists>f. transform ?d = Some f \<and> f (Num (Finite (- 5))) = Inr (Num (Finite 5)))"
    by (simp_all add: keyOnly_def absTransform_def Math_abs_def)
  have va: "validate ?c = Some positiveValidate" "validate ?d = Some positiveValidate"
    by (simp_all add: keyOnly_def)
  have g: "positiveValidate (Num (Finite (- 5))) = Inr (Bool False)"
    "positiveValidate (Num (Finite 5)) = Inr (Bool True)"
    by (simp_all add: positiveValidate_def)
  show ?thesis
    using env_validate_result [OF src(1) ne p(1) en(1) tr(1) va(1) g(1)]
          env_validate_result [OF src(2) ne p(2) en(2) tr(2) va(2) g(2)]
          env_validate_result [OF m(1) ne m(2) m(3) m(4) m(5) m(6)]
    by (simp add: keyOnly_def)
qed

text \<open>
  The empty string is neither \<^verbatim>\<open>false\<close> nor a string that is not empty, and yet \<^verbatim>\<open>env\<close> throws
  when \<^verbatim>\<open>validate\<close> returns it: \<^verbatim>\<open>typeof result === "string"\<close> holds of every string.
\<close>

theorem validate_empty_string_counterexample:
  "emptyStringValidate (Str ''x'') = Inr (Str [])
   \<and> snd (env testPlatform ((keyOnly ''K'')\<lparr>validate := Some emptyStringValidate\<rparr>)
            (Some (mockEnv [(''K'', ''x'')])))
     = Inl (Thrown_EnvError (EnvError ''K'' ['''']))
   \<and> snd (env testPlatform ((keyOnly ''K'')\<lparr>validate := Some emptyStringValidate\<rparr>)
            (Some (mockEnv [(''K'', ''x'')])))
     \<noteq> Inr (Str ''x'')"
  by (simp add: env_def Let_def lookup_eval keyOnly_def parseValue_def propertyValue_def
        emptyStringValidate_def)

section \<open>The choices of an enum\<close>





section \<open>One message for each error\<close>








section \<open>Shorthand schema entries\<close>

lemma normalizeConfig_again:
  "normalizeConfig (Config (normalizeConfig c name)) name = normalizeConfig c name"
  by (cases c) (simp_all add: normalizeConfig_def keyType_def)

text \<open>The loop sees an entry through \<^verbatim>\<open>normalizeConfig\<close> only.\<close>

lemma envSchema_loop_normalized:
  "envSchema_loop P source (map (\<lambda>(name, c). (name, Config (normalizeConfig c name))) entries)
       result errs calls
     = envSchema_loop P source entries result errs calls"
proof (induction entries arbitrary: result errs calls)
  case Nil
  show ?case by simp
next
  case (Cons entry entries)
  let ?h = "\<lambda>(name, c). (name, Config (normalizeConfig c name))"
  obtain n rc where entry: "entry = (n, rc)" by (cases entry)
  have h: "map ?h ((n, rc) # entries) = (n, Config (normalizeConfig rc n)) # map ?h entries"
    by simp
  obtain cs r where out: "env P (normalizeConfig rc n) source = (cs, r)"
    by (cases "env P (normalizeConfig rc n) source")
  then have out': "env P (normalizeConfig (Config (normalizeConfig rc n)) n) source = (cs, r)"
    by (simp only: normalizeConfig_again)
  show ?case
  proof (cases r)
    case (Inl t)
    show ?thesis
    proof (cases t)
      case (Thrown_EnvError err)
      with out out' Inl show ?thesis
        unfolding entry h by (simp only: loop_step_error Cons.IH)
    next
      case (Thrown_other x)
      with out out' Inl show ?thesis
        unfolding entry h by (simp only: loop_step_other)
    qed
  next
    case (Inr v)
    show ?thesis
    proof (cases "assign P result n v")
      case (Inl x)
      with out out' Inr show ?thesis
        unfolding entry h by (simp only: loop_step_rejected)
    next
      case result': (Inr result')
      with out out' Inr show ?thesis
        unfolding entry h by (simp only: loop_step_value Cons.IH)
    qed
  qed
qed

lemma envSchema_normalized:
  "envSchema P (map (\<lambda>(name, c). (name, Config (normalizeConfig c name))) schema) source
     = envSchema P schema source"
proof -
  have "fst ((\<lambda>(name, c). (name, Config (normalizeConfig c name))) e) = fst e"
    for e :: "string \<times> schema_entry"
    by (cases e) simp
  then have "Object_entries (map (\<lambda>(name, c). (name, Config (normalizeConfig c name))) schema)
      = map (\<lambda>(name, c). (name, Config (normalizeConfig c name))) (Object_entries schema)"
    by (rule Object_entries_map)
  then show ?thesis
    unfolding envSchema_def by (simp only: envSchema_loop_normalized)
qed

text \<open>
  C9. A schema entry that is a string resolves as the object \<^verbatim>\<open>{ key: name, type: t }\<close> does,
  where \<^verbatim>\<open>t\<close> is the string itself when it is one of the seven type names and \<^verbatim>\<open>"string"\<close>
  when it is any other string: both normalise to the same configuration, and a schema gives
  the same outcome with either entry at the same place.
\<close>

theorem shorthand_as_explicit:
  "(s \<in> set validTypes \<longrightarrow>
      normalizeConfig (Shorthand s) name = keyType name s
      \<and> normalizeConfig (Config (keyType name s)) name = keyType name s
      \<and> envSchema P (before @ (name, Shorthand s) # after) source
          = envSchema P (before @ (name, Config (keyType name s)) # after) source)
   \<and> (s \<notin> set validTypes \<longrightarrow>
      normalizeConfig (Shorthand s) name = keyType name ''string''
      \<and> normalizeConfig (Config (keyType name ''string'')) name = keyType name ''string''
      \<and> envSchema P (before @ (name, Shorthand s) # after) source
          = envSchema P (before @ (name, Config (keyType name ''string'')) # after) source)"
proof -
  let ?h = "\<lambda>(name, c). (name, Config (normalizeConfig c name))"
  let ?t = "if s \<in> set validTypes then s else ''string''"
  have explicit: "normalizeConfig (Config (keyType name t)) name = keyType name t" for t
    by (simp add: normalizeConfig_def keyType_def)
  have short: "normalizeConfig (Shorthand s) name = keyType name ?t"
    by (simp add: normalizeConfig_def)
  have "map ?h (before @ (name, Shorthand s) # after)
          = map ?h (before @ (name, Config (keyType name ?t)) # after)"
    by (simp add: short explicit)
  then have "envSchema P (map ?h (before @ (name, Shorthand s) # after)) source
          = envSchema P (map ?h (before @ (name, Config (keyType name ?t)) # after)) source"
    by (rule arg_cong)
  then have "envSchema P (before @ (name, Shorthand s) # after) source
          = envSchema P (before @ (name, Config (keyType name ?t)) # after) source"
    by (simp only: envSchema_normalized)
  with explicit short show ?thesis by simp
qed

theorem shorthand_as_explicit_witness:
  "''string'' \<in> set validTypes \<and> ''number'' \<in> set validTypes
   \<and> envSchema testPlatform [(''FOO'', Shorthand ''string''), (''BAR'', Shorthand ''number'')]
        (Some (mockEnv [(''FOO'', ''hello''), (''BAR'', ''42'')]))
     = envSchema testPlatform
        [(''FOO'', Config \<lparr>key = ''FOO'', type = Some ''string'', default_value = Undefined,
             required = None, validate = None, transform = None, choices = None, description = None\<rparr>),
         (''BAR'', Config \<lparr>key = ''BAR'', type = Some ''number'', default_value = Undefined,
             required = None, validate = None, transform = None, choices = None, description = None\<rparr>)]
        (Some (mockEnv [(''FOO'', ''hello''), (''BAR'', ''42'')]))
   \<and> ''text'' \<notin> set validTypes
   \<and> normalizeConfig (Shorthand ''text'') ''FOO''
     = \<lparr>key = ''FOO'', type = Some ''string'', default_value = Undefined,
             required = None, validate = None, transform = None, choices = None, description = None\<rparr>"
proof -
  have v: "''string'' \<in> set validTypes" "''number'' \<in> set validTypes" "''text'' \<notin> set validTypes"
    by (simp_all add: validTypes_def)
  show ?thesis
    using shorthand_as_explicit [of "''string''" "''FOO''" testPlatform "[]"
            "[(''BAR'', Shorthand ''number'')]" "Some (mockEnv [(''FOO'', ''hello''), (''BAR'', ''42'')])"]
          shorthand_as_explicit [of "''number''" "''BAR''" testPlatform
            "[(''FOO'', Config (keyType ''FOO'' ''string''))]" "[]"
            "Some (mockEnv [(''FOO'', ''hello''), (''BAR'', ''42'')])"]
          shorthand_as_explicit [of "''text''" "''FOO''" testPlatform "[]" "[]" None]
          v
    by (simp add: keyType_def)
qed

section \<open>The schema\<close>

text \<open>
  The loop of \<^verbatim>\<open>envSchema\<close> against the outcomes of the fields taken one by one, when no
  field is named \<^verbatim>\<open>__proto__\<close>: it ends with the first fault that is not an \<^verbatim>\<open>EnvError\<close>, and
  otherwise has added every value to \<^verbatim>\<open>result\<close> and every \<^verbatim>\<open>EnvError\<close> to \<^verbatim>\<open>errors\<close>, in the
  order of the entries.
\<close>

lemma fieldOutcomes_Cons:
  "fieldOutcomes P ((name, rawConfig) # rest) source
     = (name, env P (normalizeConfig rawConfig name) source) # fieldOutcomes P rest source"
  by (simp add: fieldOutcomes_def)

lemma map_add_value:
  "m ++ map_of (rev ((name, v) # vals)) = (m(name \<mapsto> v)) ++ map_of (rev vals)"
proof -
  have "map_of (rev ((name, v) # vals)) = map_of [(name, v)] ++ map_of (rev vals)"
    by (simp only: rev.simps map_of_append)
  then have "m ++ map_of (rev ((name, v) # vals)) = (m ++ map_of [(name, v)]) ++ map_of (rev vals)"
    by (simp only: map_add_assoc)
  also have "m ++ map_of [(name, v)] = m(name \<mapsto> v)" by simp
  finally show ?thesis .
qed

lemma envSchema_loop_outcomes:
  assumes "''__proto__'' \<notin> fst ` set entries" and "prototype result = Builtin ''__proto__''"
  shows "envSchema_loop P source entries result errs calls =
     (case firstOther (fieldOutcomes P entries source) of
        Some x \<Rightarrow> (calls @ callsMade (fieldOutcomes P entries source), Inl x)
      | None \<Rightarrow> (calls @ callsMade (fieldOutcomes P entries source),
                 Inr (result\<lparr>properties := properties result
                         ++ map_of (rev (fieldValues (fieldOutcomes P entries source)))\<rparr>,
                      errs @ fieldErrors (fieldOutcomes P entries source))))"
  using assms
proof (induction entries arbitrary: result errs calls)
  case Nil
  show ?case by (simp add: fieldOutcomes_def)
next
  case (Cons entry entries)
  let ?outs = "fieldOutcomes P entries source"
  obtain name rawConfig where entry: "entry = (name, rawConfig)" by (cases entry)
  from Cons.prems(1) entry have ne: "name \<noteq> ''__proto__''"
    and rest: "''__proto__'' \<notin> fst ` set entries"
    by auto
  obtain cs r where out: "env P (normalizeConfig rawConfig name) source = (cs, r)"
    by (cases "env P (normalizeConfig rawConfig name) source")
  show ?case
  proof (cases r)
    case (Inl t)
    show ?thesis
    proof (cases t)
      case (Thrown_EnvError err)
      with out Inl have o: "env P (normalizeConfig rawConfig name) source
                              = (cs, Inl (Thrown_EnvError err))" by simp
      show ?thesis
        unfolding entry fieldOutcomes_Cons loop_step_error [OF o] Cons.IH [OF rest Cons.prems(2)] o
        by (simp split: option.splits)
    next
      case (Thrown_other x)
      with out Inl have o: "env P (normalizeConfig rawConfig name) source
                              = (cs, Inl (Thrown_other x))" by simp
      show ?thesis
        unfolding entry fieldOutcomes_Cons loop_step_other [OF o] o
        by simp
    qed
  next
    case (Inr v)
    let ?result' = "result\<lparr>properties := (properties result)(name \<mapsto> v)\<rparr>"
    from out Inr have o: "env P (normalizeConfig rawConfig name) source = (cs, Inr v)" by simp
    have step: "envSchema_loop P source ((name, rawConfig) # entries) result errs calls
        = envSchema_loop P source entries ?result' errs (calls @ cs)"
      by (rule loop_step_value [OF o assign_property [OF Cons.prems(2) ne]])
    have proto: "prototype ?result' = Builtin ''__proto__''"
      using Cons.prems(2) by simp
    have added: "?result'\<lparr>properties := properties ?result' ++ map_of (rev (fieldValues ?outs))\<rparr>
        = result\<lparr>properties := properties result
            ++ map_of (rev (fieldValues ((name, cs, Inr v) # ?outs)))\<rparr>"
    proof -
      have "?result'\<lparr>properties := properties ?result' ++ map_of (rev (fieldValues ?outs))\<rparr>
          = result\<lparr>properties := (properties result)(name \<mapsto> v) ++ map_of (rev (fieldValues ?outs))\<rparr>"
        by simp
      then show ?thesis by (simp only: fieldValues.simps map_add_value)
    qed
    show ?thesis
      unfolding entry fieldOutcomes_Cons o step Cons.IH [OF rest proto]
      by (simp only: firstOther.simps fieldErrors.simps callsMade.simps added append_assoc)
  qed
qed

lemma fieldValues_names:
  assumes "firstOther outs = None" and "fieldErrors outs = []"
  shows "map fst (fieldValues outs) = map fst outs"
  using assms
proof (induction outs)
  case Nil
  show ?case by simp
next
  case (Cons out outs)
  obtain name cs r where out: "out = (name, cs, r)" by (cases out)
  show ?case
  proof (cases r)
    case (Inl t)
    with Cons.prems out show ?thesis by (cases t) simp_all
  next
    case (Inr v)
    with Cons out show ?thesis by simp
  qed
qed

lemma every_field_counted:
  assumes "firstOther outs = None"
  shows "length (fieldErrors outs) + length (fieldValues outs) = length outs"
    and "callsMade outs = concat (map (\<lambda>(name, cs, r). cs) outs)"
proof -
  have "length (fieldErrors outs) + length (fieldValues outs) = length outs
        \<and> callsMade outs = concat (map (\<lambda>(name, cs, r). cs) outs)"
    using assms
  proof (induction outs)
    case Nil
    show ?case by simp
  next
    case (Cons out outs)
    obtain name cs r where out: "out = (name, cs, r)" by (cases out)
    show ?case
    proof (cases r)
      case (Inl t)
      with Cons out show ?thesis by (cases t) simp_all
    next
      case (Inr v)
      with Cons out show ?thesis by simp
    qed
  qed
  then show "length (fieldErrors outs) + length (fieldValues outs) = length outs"
    and "callsMade outs = concat (map (\<lambda>(name, cs, r). cs) outs)"
    by simp_all
qed

text \<open>
  C1, as the code has it. \<^verbatim>\<open>envSchema\<close> visits the fields in the order of
  \<^verbatim>\<open>Object.entries(schema)\<close>, which holds every field once: first the fields whose names are
  array indices, in ascending order, then the other fields in the order of declaration; so
  it is the order of declaration when no field name is an array index. For a schema without a field named \<^verbatim>\<open>__proto__\<close>, take the outcomes of the fields in
  that order, each field being its entry normalised and given to \<^verbatim>\<open>env\<close>. When no field throws
  anything but an \<^verbatim>\<open>EnvError\<close>, every field is resolved and counts either as a value or as an
  error; with no error the result is an object with one property for every field, holding the
  field's value, and with errors \<^verbatim>\<open>envSchema\<close> throws one \<^verbatim>\<open>EnvValidationError\<close> that holds
  exactly these errors in the order of the fields. When a field throws something else,
  \<^verbatim>\<open>envSchema\<close> throws that at once: the fields after it are not resolved. An
  \<^verbatim>\<open>EnvValidationError\<close> thrown by \<^verbatim>\<open>envSchema\<close> is never empty.
\<close>

theorem envSchema_aggregates:
  assumes "''__proto__'' \<notin> fst ` set schema"
  shows "(firstOther (fieldOutcomes P (Object_entries schema) source) = None \<longrightarrow>
      length (fieldErrors (fieldOutcomes P (Object_entries schema) source))
        + length (fieldValues (fieldOutcomes P (Object_entries schema) source)) = length schema
      \<and> fst (envSchema P schema source)
          = concat (map (\<lambda>(name, cs, r). cs) (fieldOutcomes P (Object_entries schema) source)))
   \<and> (firstOther (fieldOutcomes P (Object_entries schema) source) = None
        \<and> fieldErrors (fieldOutcomes P (Object_entries schema) source) = [] \<longrightarrow>
      snd (envSchema P schema source)
        = Inr \<lparr>properties = map_of (rev (fieldValues (fieldOutcomes P (Object_entries schema) source))),
               prototype = Builtin ''__proto__''\<rparr>
      \<and> dom (map_of (rev (fieldValues (fieldOutcomes P (Object_entries schema) source))))
          = fst ` set schema)
   \<and> (firstOther (fieldOutcomes P (Object_entries schema) source) = None
        \<and> fieldErrors (fieldOutcomes P (Object_entries schema) source) \<noteq> [] \<longrightarrow>
      snd (envSchema P schema source)
        = Inl (Thrown_EnvValidationError
                 (fieldErrors (fieldOutcomes P (Object_entries schema) source))))
   \<and> (\<forall>x. firstOther (fieldOutcomes P (Object_entries schema) source) = Some x \<longrightarrow>
      envSchema P schema source
        = (callsMade (fieldOutcomes P (Object_entries schema) source), Inl (Rethrown x)))
   \<and> (\<forall>es. snd (envSchema P schema source) = Inl (Thrown_EnvValidationError es) \<longrightarrow> es \<noteq> [])
   \<and> map fst (fieldOutcomes P (Object_entries schema) source) = map fst (Object_entries schema)
   \<and> ((\<forall>name \<in> fst ` set schema. \<not> isArrayIndex name) \<longrightarrow> Object_entries schema = schema)
   \<and> set (Object_entries schema) = set schema
   \<and> length (Object_entries schema) = length schema
   \<and> Object_entries schema
       = filter (\<lambda>(name, c). isArrayIndex name) (Object_entries schema)
         @ filter (\<lambda>(name, c). \<not> isArrayIndex name) schema
   \<and> sorted (map (\<lambda>(name, c). digitsValue 10 name)
         (filter (\<lambda>(name, c). isArrayIndex name) (Object_entries schema)))"
proof -
  let ?outs = "fieldOutcomes P (Object_entries schema) source"
  from assms have "''__proto__'' \<notin> fst ` set (Object_entries schema)"
    by (simp add: set_Object_entries)
  then have loop: "envSchema_loop P source (Object_entries schema) emptyObject [] [] =
     (case firstOther ?outs of
        Some x \<Rightarrow> (callsMade ?outs, Inl x)
      | None \<Rightarrow> (callsMade ?outs,
                 Inr (\<lparr>properties = map_of (rev (fieldValues ?outs)),
                       prototype = Builtin ''__proto__''\<rparr>,
                      fieldErrors ?outs)))"
    using envSchema_loop_outcomes [of "Object_entries schema" emptyObject P source "[]" "[]"]
    by (simp add: emptyObject_def cong: option.case_cong)
  have len: "length ?outs = length schema"
    by (simp add: fieldOutcomes_def length_Object_entries)
  have names: "map fst ?outs = map fst (Object_entries schema)"
    by (simp add: fieldOutcomes_def comp_def case_prod_beta)
  have counted: "length (fieldErrors ?outs) + length (fieldValues ?outs) = length schema"
    and calls: "fst (envSchema P schema source) = concat (map (\<lambda>(name, cs, r). cs) ?outs)"
    if "firstOther ?outs = None"
    using that every_field_counted [OF that] len
    by (simp_all add: envSchema_def loop)
  have vals: "snd (envSchema P schema source)
        = Inr \<lparr>properties = map_of (rev (fieldValues ?outs)), prototype = Builtin ''__proto__''\<rparr>"
    and entries: "dom (map_of (rev (fieldValues ?outs))) = fst ` set schema"
    if "firstOther ?outs = None" "fieldErrors ?outs = []"
  proof -
    show "snd (envSchema P schema source)
        = Inr \<lparr>properties = map_of (rev (fieldValues ?outs)), prototype = Builtin ''__proto__''\<rparr>"
      using that by (simp add: envSchema_def loop)
    have "dom (map_of (rev (fieldValues ?outs))) = set (map fst (fieldValues ?outs))"
      by (simp add: dom_map_of_conv_image_fst)
    also have "\<dots> = set (map fst (Object_entries schema))"
      by (simp only: fieldValues_names [OF that] names)
    also have "\<dots> = fst ` set schema"
      by (simp only: set_map set_Object_entries)
    finally show "dom (map_of (rev (fieldValues ?outs))) = fst ` set schema" .
  qed
  have thrown_errors: "snd (envSchema P schema source) = Inl (Thrown_EnvValidationError (fieldErrors ?outs))"
    if "firstOther ?outs = None" "fieldErrors ?outs \<noteq> []"
    using that by (simp add: envSchema_def loop)
  have other: "envSchema P schema source = (callsMade ?outs, Inl (Rethrown x))"
    if "firstOther ?outs = Some x" for x
    using that by (simp add: envSchema_def loop)
  have nonempty: "es \<noteq> []"
    if "snd (envSchema P schema source) = Inl (Thrown_EnvValidationError es)" for es
    using that by (auto simp: envSchema_def loop split: option.splits if_splits)
  have plain: "Object_entries schema = schema"
    if "\<forall>name \<in> fst ` set schema. \<not> isArrayIndex name"
    using that by (rule Object_entries_plain)
  have c1: "firstOther ?outs = None \<longrightarrow>
      length (fieldErrors ?outs) + length (fieldValues ?outs) = length schema
      \<and> fst (envSchema P schema source) = concat (map (\<lambda>(name, cs, r). cs) ?outs)"
    using counted calls by blast
  have c2: "firstOther ?outs = None \<and> fieldErrors ?outs = [] \<longrightarrow>
      snd (envSchema P schema source)
        = Inr \<lparr>properties = map_of (rev (fieldValues ?outs)), prototype = Builtin ''__proto__''\<rparr>
      \<and> dom (map_of (rev (fieldValues ?outs))) = fst ` set schema"
    using vals entries by blast
  have c3: "firstOther ?outs = None \<and> fieldErrors ?outs \<noteq> [] \<longrightarrow>
      snd (envSchema P schema source) = Inl (Thrown_EnvValidationError (fieldErrors ?outs))"
    using thrown_errors by blast
  have c4: "\<forall>x. firstOther ?outs = Some x \<longrightarrow>
      envSchema P schema source = (callsMade ?outs, Inl (Rethrown x))"
    using other by blast
  have c5: "\<forall>es. snd (envSchema P schema source) = Inl (Thrown_EnvValidationError es) \<longrightarrow> es \<noteq> []"
    using nonempty by blast
  have c7: "(\<forall>name \<in> fst ` set schema. \<not> isArrayIndex name) \<longrightarrow> Object_entries schema = schema"
    using plain by blast
  show ?thesis
    by (intro conjI c1 c2 c3 c4 c5 names c7 set_Object_entries length_Object_entries
          Object_entries_order)
qed

theorem envSchema_aggregates_witness:
  "snd (envSchema testPlatform
          [(''A'', Config ((keyOnly ''A'')\<lparr>type := Some ''number''\<rparr>)),
           (''B'', Config ((keyOnly ''B'')\<lparr>type := Some ''url''\<rparr>)),
           (''C'', Config ((keyOnly ''C'')\<lparr>type := Some ''port''\<rparr>))]
          (Some (mockEnv [])))
     = Inl (Thrown_EnvValidationError
              [EnvError ''A'' [''Required but not set''], EnvError ''B'' [''Required but not set''],
               EnvError ''C'' [''Required but not set'']])
   \<and> snd (envSchema testPlatform
          [(''PORT'', Config ((keyOnly ''PORT'')\<lparr>type := Some ''port'', default_value := Num (Finite 3000)\<rparr>)),
           (''HOST'', Config ((keyOnly ''HOST'')\<lparr>type := Some ''string'', default_value := Str ''localhost''\<rparr>)),
           (''DEBUG'', Config ((keyOnly ''DEBUG'')\<lparr>type := Some ''boolean'', default_value := Bool False\<rparr>))]
          (Some (mockEnv [(''PORT'', ''8080'')])))
     = Inr \<lparr>properties = map_of (rev [(''PORT'', Num (Finite 8080)), (''HOST'', Str ''localhost''),
                                         (''DEBUG'', Bool False)]),
            prototype = Builtin ''__proto__''\<rparr>
   \<and> envSchema testPlatform
          [(''A'', Config ((keyOnly ''A'')\<lparr>type := Some ''number''\<rparr>)),
           (''K'', Config ((keyOnly ''K'')\<lparr>transform := Some throwingTransform\<rparr>)),
           (''N'', Config ((keyOnly ''N'')\<lparr>type := Some ''number'', transform := Some absTransform\<rparr>))]
          (Some (mockEnv [(''K'', ''x''), (''N'', ''-5'')]))
     = ([TransformCall (Str ''x'')], Inl (Rethrown (Str ''boom'')))"
proof -
  let ?A = "[(''A'', Config ((keyOnly ''A'')\<lparr>type := Some ''number''\<rparr>)),
           (''B'', Config ((keyOnly ''B'')\<lparr>type := Some ''url''\<rparr>)),
           (''C'', Config ((keyOnly ''C'')\<lparr>type := Some ''port''\<rparr>))]"
  let ?B = "[(''PORT'', Config ((keyOnly ''PORT'')\<lparr>type := Some ''port'', default_value := Num (Finite 3000)\<rparr>)),
           (''HOST'', Config ((keyOnly ''HOST'')\<lparr>type := Some ''string'', default_value := Str ''localhost''\<rparr>)),
           (''DEBUG'', Config ((keyOnly ''DEBUG'')\<lparr>type := Some ''boolean'', default_value := Bool False\<rparr>))]"
  let ?C = "[(''A'', Config ((keyOnly ''A'')\<lparr>type := Some ''number''\<rparr>)),
           (''K'', Config ((keyOnly ''K'')\<lparr>transform := Some throwingTransform\<rparr>)),
           (''N'', Config ((keyOnly ''N'')\<lparr>type := Some ''number'', transform := Some absTransform\<rparr>))]"
  have names: "''__proto__'' \<notin> fst ` set ?A" "''__proto__'' \<notin> fst ` set ?B"
    "''__proto__'' \<notin> fst ` set ?C"
    by simp_all
  have order: "Object_entries ?A = ?A" "Object_entries ?B = ?B" "Object_entries ?C = ?C"
    by (rule Object_entries_plain, simp add: letter_not_index isDecimalDigit_def)+
  have port: "parsePort ''8080'' ''PORT'' = Inr (Finite 8080)"
    by (simp add: parsePort_def isNaN_def Number_isInteger_def Number_eval)
  have a: "fieldOutcomes testPlatform ?A (Some (mockEnv []))
         = [(''A'', [], Inl (Thrown_EnvError (EnvError ''A'' [''Required but not set'']))),
            (''B'', [], Inl (Thrown_EnvError (EnvError ''B'' [''Required but not set'']))),
            (''C'', [], Inl (Thrown_EnvError (EnvError ''C'' [''Required but not set''])))]"
    by (simp add: fieldOutcomes_def normalizeConfig_def keyOnly_def env_def Let_def lookup_eval)
  have b: "fieldOutcomes testPlatform ?B (Some (mockEnv [(''PORT'', ''8080'')]))
         = [(''PORT'', [], Inr (Num (Finite 8080))), (''HOST'', [], Inr (Str ''localhost'')),
            (''DEBUG'', [], Inr (Bool False))]"
    by (simp add: fieldOutcomes_def normalizeConfig_def keyOnly_def env_def Let_def lookup_eval
          parseValue_def propertyText_def port)
  have c: "fieldOutcomes testPlatform ?C (Some (mockEnv [(''K'', ''x''), (''N'', ''-5'')]))
         = [(''A'', [], Inl (Thrown_EnvError (EnvError ''A'' [''Required but not set'']))),
            (''K'', [TransformCall (Str ''x'')], Inl (Thrown_other (Str ''boom''))),
            (''N'', [TransformCall (Num (Finite (- 5)))], Inr (Num (Finite 5)))]"
    by (simp add: fieldOutcomes_def normalizeConfig_def keyOnly_def env_def Let_def lookup_eval
          parseValue_def propertyText_def propertyValue_def parseNumber_def isNaN_def
          Number_minus_5 throwingTransform_def absTransform_def Math_abs_def)
  have errors: "snd (envSchema testPlatform ?A (Some (mockEnv [])))
     = Inl (Thrown_EnvValidationError
              [EnvError ''A'' [''Required but not set''], EnvError ''B'' [''Required but not set''],
               EnvError ''C'' [''Required but not set'']])"
    using envSchema_aggregates [OF names(1), of testPlatform "Some (mockEnv [])",
            THEN conjunct2, THEN conjunct2, THEN conjunct1]
    unfolding order a by simp
  have vals: "snd (envSchema testPlatform ?B (Some (mockEnv [(''PORT'', ''8080'')])))
     = Inr \<lparr>properties = map_of (rev [(''PORT'', Num (Finite 8080)), (''HOST'', Str ''localhost''),
                                         (''DEBUG'', Bool False)]),
            prototype = Builtin ''__proto__''\<rparr>"
    using envSchema_aggregates [OF names(2), of testPlatform "Some (mockEnv [(''PORT'', ''8080'')])",
            THEN conjunct2, THEN conjunct1]
    unfolding order b by simp
  have other: "envSchema testPlatform ?C (Some (mockEnv [(''K'', ''x''), (''N'', ''-5'')]))
     = ([TransformCall (Str ''x'')], Inl (Rethrown (Str ''boom'')))"
    using envSchema_aggregates [OF names(3), of testPlatform
            "Some (mockEnv [(''K'', ''x''), (''N'', ''-5'')])",
            THEN conjunct2, THEN conjunct2, THEN conjunct2, THEN conjunct1]
    unfolding order c by simp
  from errors vals other show ?thesis by (intro conjI)
qed

text \<open>
  Three fields declared in the order \<^verbatim>\<open>B\<close>, \<^verbatim>\<open>2\<close>, \<^verbatim>\<open>1\<close>, none of them set: the errors come in
  the order \<^verbatim>\<open>1\<close>, \<^verbatim>\<open>2\<close>, \<^verbatim>\<open>B\<close>. And a schema with a field named \<^verbatim>\<open>__proto__\<close>, as
  \<^verbatim>\<open>JSON.parse\<close> makes one: the result has no property of that name.
\<close>

theorem declaration_order_counterexample:
  "snd (envSchema testPlatform
          [(''B'', Shorthand ''string''), (''2'', Shorthand ''string''), (''1'', Shorthand ''string'')]
          (Some (mockEnv [])))
     = Inl (Thrown_EnvValidationError
              [EnvError ''1'' [''Required but not set''], EnvError ''2'' [''Required but not set''],
               EnvError ''B'' [''Required but not set'']])
   \<and> snd (envSchema testPlatform
          [(''A'', Shorthand ''string''), (''__proto__'', Config (keyOnly ''P''))]
          (Some (mockEnv [(''A'', ''a''), (''P'', ''p'')])))
     = Inr \<lparr>properties = [''A'' \<mapsto> Str ''a''], prototype = Builtin ''__proto__''\<rparr>
   \<and> ''__proto__'' \<notin> dom [''A'' \<mapsto> Str ''a'']"
proof -
  have order: "Object_entries [(''B'', Shorthand ''string''), (''2'', Shorthand ''string''),
                               (''1'', Shorthand ''string'')]
      = [(''1'', Shorthand ''string''), (''2'', Shorthand ''string''), (''B'', Shorthand ''string'')]"
    by (simp add: Object_entries_def isArrayIndex_def DecimalDigits_def isDecimalDigit_def
          digitsValue_def digitValue_def)
  have plain: "Object_entries [(''A'', Shorthand ''string''), (''__proto__'', Config (keyOnly ''P''))]
      = [(''A'', Shorthand ''string''), (''__proto__'', Config (keyOnly ''P''))]"
    by (rule Object_entries_plain) (simp add: letter_not_index isDecimalDigit_def)
  have errors: "snd (envSchema testPlatform
          [(''B'', Shorthand ''string''), (''2'', Shorthand ''string''), (''1'', Shorthand ''string'')]
          (Some (mockEnv [])))
     = Inl (Thrown_EnvValidationError
              [EnvError ''1'' [''Required but not set''], EnvError ''2'' [''Required but not set''],
               EnvError ''B'' [''Required but not set'']])"
    unfolding envSchema_def order
    by (simp add: normalizeConfig_def validTypes_def keyType_def env_def Let_def lookup_eval)
  have proto: "snd (envSchema testPlatform
          [(''A'', Shorthand ''string''), (''__proto__'', Config (keyOnly ''P''))]
          (Some (mockEnv [(''A'', ''a''), (''P'', ''p'')])))
     = Inr \<lparr>properties = [''A'' \<mapsto> Str ''a''], prototype = Builtin ''__proto__''\<rparr>"
    unfolding envSchema_def plain
    by (simp add: normalizeConfig_def validTypes_def keyType_def keyOnly_def env_def Let_def
          lookup_eval parseValue_def propertyValue_def emptyObject_def assign_def rejects_def
          isObjectOrNull_def)
  from errors proto show ?thesis by simp
qed
section \<open>The number parser\<close>

lemma digit_not_space: "isDecimalDigit c \<Longrightarrow> \<not> isWhiteSpace c"
  by (auto simp: isDecimalDigit_def isWhiteSpace_def)

lemma trim_unchanged:
  assumes "s \<noteq> []" and "\<not> isWhiteSpace (hd s)" and "\<not> isWhiteSpace (last s)"
  shows "trim s = s"
proof -
  from assms(1,2) have front: "dropWhile isWhiteSpace s = s" by (cases s) simp_all
  from assms(1,3) have "dropWhile isWhiteSpace (rev s) = rev s"
    by (cases "rev s") (simp_all add: last_rev [symmetric] del: last_rev)
  with front show ?thesis by (simp add: trim_def)
qed

lemma digits_hd_last:
  assumes "DecimalDigits ds"
  shows "isDecimalDigit (hd ds)" and "isDecimalDigit (last ds)"
  using assms by (auto simp: DecimalDigits_def list_all_iff)

lemma digitsValue_nonneg:
  assumes "0 \<le> radix" and "list_all isDecimalDigit ds"
  shows "0 \<le> digitsValue radix ds"
proof -
  have "0 \<le> a \<Longrightarrow> 0 \<le> foldl (\<lambda>a c. a * radix + digitValue c) a ds" for a
    using assms(2)
  proof (induction ds arbitrary: a)
    case Nil
    then show ?case by simp
  next
    case (Cons c ds)
    have "(of_char c :: int) = int (of_char c)" by (simp only: of_nat_of_char)
    with Cons.prems have "0 \<le> digitValue c"
      by (simp add: isDecimalDigit_def digitValue_def Let_def)
    with Cons.prems assms(1) have "0 \<le> a * radix + digitValue c" by simp
    with Cons show ?case by simp
  qed
  then show ?thesis by (simp add: digitsValue_def)
qed

lemma toDouble_exact:
  assumes "0 \<le> n" and "n < 2 ^ 53"
  shows "toDouble n 1 = Finite (rat_of_int n)"
proof (cases "n = 0")
  case True
  then show ?thesis by (simp add: toDouble_def)
next
  case False
  with assms(1) have "0 < n" by simp
  then show ?thesis using assms(2) by (rule toDouble_int)
qed

lemma negate_toDouble_not_NaN: "negate (toDouble n d) \<noteq> NaN"
  by (simp add: negate_def toDouble_def Let_def)

lemma StrUnsignedDecimalLiteral_not_NaN: "StrUnsignedDecimalLiteral s \<noteq> Some NaN"
  by (auto simp: StrUnsignedDecimalLiteral_def Let_def scaled_def toDouble_not_NaN
        split: option.splits)

lemma StrUnsignedDecimalLiteral_not_negative:
  "StrUnsignedDecimalLiteral s = Some n \<Longrightarrow> n = PosInfinity \<or> (\<exists>q. n = Finite q)"
  by (cases n)
     (auto simp: StrUnsignedDecimalLiteral_def Let_def scaled_def toDouble_not_NaN
        toDouble_not_NegZero toDouble_not_NegInfinity split: option.splits if_splits)

lemma StrNumericLiteral_not_NaN: "StrNumericLiteral s \<noteq> Some NaN"
proof
  assume a: "StrNumericLiteral s = Some NaN"
  show False
  proof (cases "NonDecimalIntegerLiteral s")
    case (Some n)
    with a have "NonDecimalIntegerLiteral s = Some NaN" by (simp add: StrNumericLiteral_def)
    then show False
      by (auto simp: NonDecimalIntegerLiteral_def toDouble_not_NaN split: list.splits if_splits)
  next
    case None
    with a have d: "StrDecimalLiteral s = Some NaN" by (simp add: StrNumericLiteral_def)
    then obtain c t where s: "s = c # t" by (cases s) (simp_all add: StrDecimalLiteral_def)
    show False
    proof (cases "c = CHR ''-''")
      case True
      with d s obtain n where n: "StrUnsignedDecimalLiteral t = Some n" "negate n = NaN"
        by (auto simp: StrDecimalLiteral_def)
      from StrUnsignedDecimalLiteral_not_negative [OF n(1)] n(2) show False
        by (auto simp: negate_def split: if_splits)
    next
      case False
      with d s show False
        by (auto simp: StrDecimalLiteral_def StrUnsignedDecimalLiteral_not_NaN split: if_splits)
    qed
  qed
qed

text \<open>The three families the specification names: integers, negatives and decimals.\<close>

lemma digits_literal:
  assumes "DecimalDigits ds"
  shows "StrUnsignedDecimalLiteral ds = Some (toDouble (digitsValue 10 ds) 1)"
proof -
  from assms have all: "list_all isDecimalDigit ds" and ne: "ds \<noteq> []"
    by (simp_all add: DecimalDigits_def)
  from all have tw: "takeWhile isDecimalDigit ds = ds" and dw: "dropWhile isDecimalDigit ds = []"
    by (simp_all add: list_all_iff)
  have "\<not> isDecimalDigit CHR ''I''" by (simp add: isDecimalDigit_def)
  with all have inf: "ds \<noteq> ''Infinity''" by (auto simp: list_all_iff)
  show ?thesis
    using ne inf
    by (simp add: StrUnsignedDecimalLiteral_def tw dw Let_def ExponentPart_def scaled_def)
qed

lemma decimal_literal:
  assumes "DecimalDigits ds" and "DecimalDigits fs"
  shows "StrUnsignedDecimalLiteral (ds @ CHR ''.'' # fs)
       = Some (scaled (digitsValue 10 (ds @ fs)) (- int (length fs)))"
proof -
  from assms have all: "list_all isDecimalDigit ds" "list_all isDecimalDigit fs"
    and ne: "ds \<noteq> []" "fs \<noteq> []"
    by (simp_all add: DecimalDigits_def)
  have dot: "\<not> isDecimalDigit CHR ''.''" by (simp add: isDecimalDigit_def)
  from all(1) dot have tw: "takeWhile isDecimalDigit (ds @ CHR ''.'' # fs) = ds"
    and dw: "dropWhile isDecimalDigit (ds @ CHR ''.'' # fs) = CHR ''.'' # fs"
    by (simp_all add: list_all_iff takeWhile_append2 dropWhile_append2)
  from all(2) have tf: "takeWhile isDecimalDigit fs = fs" and df: "dropWhile isDecimalDigit fs = []"
    by (simp_all add: list_all_iff)
  have "\<not> isDecimalDigit CHR ''I''" by (simp add: isDecimalDigit_def)
  with all(1) ne(1) have "hd (ds @ CHR ''.'' # fs) \<noteq> CHR ''I''"
    by (cases ds) (auto simp: list_all_iff)
  then have inf: "ds @ CHR ''.'' # fs \<noteq> ''Infinity''" by auto
  show ?thesis
    using ne inf
    by (simp add: StrUnsignedDecimalLiteral_def tw dw tf df Let_def ExponentPart_def)
qed

lemma NonDecimal_needs_letter:
  assumes "NonDecimalIntegerLiteral s = Some n"
  shows "\<exists>p ds. s = CHR ''0'' # p # ds \<and> \<not> isDecimalDigit p \<and> p \<noteq> CHR ''.''"
  using assms
  by (auto simp: NonDecimalIntegerLiteral_def isDecimalDigit_def split: list.splits if_splits)

lemma digits_not_NonDecimal:
  assumes "DecimalDigits ds"
  shows "NonDecimalIntegerLiteral ds = None"
    and "NonDecimalIntegerLiteral (CHR ''-'' # ds) = None"
    and "list_all isDecimalDigit fs \<Longrightarrow> NonDecimalIntegerLiteral (ds @ CHR ''.'' # fs) = None"
proof -
  from assms have all: "list_all isDecimalDigit ds" and ne: "ds \<noteq> []"
    by (simp_all add: DecimalDigits_def)
  show "NonDecimalIntegerLiteral ds = None"
  proof (rule ccontr)
    assume "NonDecimalIntegerLiteral ds \<noteq> None"
    then obtain n where "NonDecimalIntegerLiteral ds = Some n" by auto
    from NonDecimal_needs_letter [OF this] all show False by auto
  qed
  show "NonDecimalIntegerLiteral (CHR ''-'' # ds) = None"
    by (simp add: NonDecimalIntegerLiteral_def split: list.splits)
  show "NonDecimalIntegerLiteral (ds @ CHR ''.'' # fs) = None" if "list_all isDecimalDigit fs"
  proof (rule ccontr)
    assume "NonDecimalIntegerLiteral (ds @ CHR ''.'' # fs) \<noteq> None"
    then obtain n where "NonDecimalIntegerLiteral (ds @ CHR ''.'' # fs) = Some n" by auto
    from NonDecimal_needs_letter [OF this] obtain p rest
      where eq: "ds @ CHR ''.'' # fs = CHR ''0'' # p # rest"
        and p: "\<not> isDecimalDigit p" "p \<noteq> CHR ''.''" by auto
    from ne obtain d ds' where ds: "ds = d # ds'" by (cases ds) auto
    show False
    proof (cases ds')
      case Nil
      with eq ds p show False by simp
    next
      case (Cons d' ds'')
      with eq ds have "p = d'" by simp
      with all ds Cons p show False by simp
    qed
  qed
qed

lemma families:
  assumes "DecimalDigits ds"
  shows "StrNumericLiteral ds = Some (toDouble (digitsValue 10 ds) 1)"
    and "StrNumericLiteral (CHR ''-'' # ds) = Some (negate (toDouble (digitsValue 10 ds) 1))"
    and "DecimalDigits fs \<Longrightarrow> StrNumericLiteral (ds @ CHR ''.'' # fs)
           = Some (scaled (digitsValue 10 (ds @ fs)) (- int (length fs)))"
proof -
  from assms have all: "list_all isDecimalDigit ds" and ne: "ds \<noteq> []"
    by (simp_all add: DecimalDigits_def)
  from digits_hd_last(1) [OF assms] have h: "hd ds \<noteq> CHR ''+''" "hd ds \<noteq> CHR ''-''"
    by (auto simp: isDecimalDigit_def)
  from ne h have plain: "StrDecimalLiteral ds = StrUnsignedDecimalLiteral ds"
    by (cases ds) (simp_all add: StrDecimalLiteral_def)
  show "StrNumericLiteral ds = Some (toDouble (digitsValue 10 ds) 1)"
    by (simp add: StrNumericLiteral_def digits_not_NonDecimal(1) [OF assms] plain
          digits_literal [OF assms])
  show "StrNumericLiteral (CHR ''-'' # ds) = Some (negate (toDouble (digitsValue 10 ds) 1))"
    by (simp add: StrNumericLiteral_def digits_not_NonDecimal(2) [OF assms] StrDecimalLiteral_def
          digits_literal [OF assms])
  show "StrNumericLiteral (ds @ CHR ''.'' # fs)
           = Some (scaled (digitsValue 10 (ds @ fs)) (- int (length fs)))" if fs: "DecimalDigits fs"
  proof -
    from fs have allf: "list_all isDecimalDigit fs" by (simp add: DecimalDigits_def)
    from ne h have "StrDecimalLiteral (ds @ CHR ''.'' # fs)
                      = StrUnsignedDecimalLiteral (ds @ CHR ''.'' # fs)"
      by (cases ds) (simp_all add: StrDecimalLiteral_def)
    then show ?thesis
      by (simp add: StrNumericLiteral_def digits_not_NonDecimal(3) [OF assms allf]
            decimal_literal [OF assms fs])
  qed
qed

lemma Number_of_literal:
  assumes "trim raw \<noteq> []"
  shows "Number raw = (case StrNumericLiteral (trim raw) of None \<Rightarrow> NaN | Some n \<Rightarrow> n)"
  using assms by (simp add: Number_def Let_def)

text \<open>
  C5, as the code has it. For a raw string that is not white space only, \<^verbatim>\<open>parseNumber\<close> returns
  the number of the string when the string, without the white space around it, is a numeric
  string literal (\<open>StrNumericLiteral\<close>), and throws an \<^verbatim>\<open>EnvError\<close> with one message exactly
  when it is not. Integers, negatives and decimals are such literals: digits, a minus sign
  and digits, digits with a point and digits; their number is the double nearest to the
  value written, which for an integer below \<open>2\<^sup>5\<^sup>3\<close> is the integer itself.
\<close>

theorem parseNumber_literals:
  assumes "trim raw \<noteq> []"
  shows "(\<forall>n. StrNumericLiteral (trim raw) = Some n \<longrightarrow> parseNumber raw k = Inr n)
       \<and> (StrNumericLiteral (trim raw) = None \<longrightarrow>
            parseNumber raw k = Inl (EnvError k [''Expected a number, got '' @ quoted raw]))
       \<and> (\<forall>ds. DecimalDigits ds \<longrightarrow>
            parseNumber ds k = Inr (toDouble (digitsValue 10 ds) 1)
            \<and> parseNumber (CHR ''-'' # ds) k = Inr (negate (toDouble (digitsValue 10 ds) 1))
            \<and> (digitsValue 10 ds < 2 ^ 53 \<longrightarrow>
                 parseNumber ds k = Inr (Finite (rat_of_int (digitsValue 10 ds))))
            \<and> (\<forall>fs. DecimalDigits fs \<longrightarrow>
                 parseNumber (ds @ CHR ''.'' # fs) k
                   = Inr (scaled (digitsValue 10 (ds @ fs)) (- int (length fs)))))"
proof -
  have general: "parseNumber s k = Inr n" if "trim s \<noteq> []" "StrNumericLiteral (trim s) = Some n"
    for s n
  proof -
    from that have "Number s = n" by (simp add: Number_of_literal)
    moreover from that(2) StrNumericLiteral_not_NaN [of "trim s"] have "n \<noteq> NaN" by auto
    ultimately show ?thesis by (simp add: parseNumber_def isNaN_def)
  qed
  have rejected: "parseNumber raw k = Inl (EnvError k [''Expected a number, got '' @ quoted raw])"
    if "StrNumericLiteral (trim raw) = None"
    using that assms by (simp add: parseNumber_def isNaN_def Number_of_literal)
  have fam: "parseNumber ds k = Inr (toDouble (digitsValue 10 ds) 1)
            \<and> parseNumber (CHR ''-'' # ds) k = Inr (negate (toDouble (digitsValue 10 ds) 1))
            \<and> (digitsValue 10 ds < 2 ^ 53 \<longrightarrow>
                 parseNumber ds k = Inr (Finite (rat_of_int (digitsValue 10 ds))))
            \<and> (\<forall>fs. DecimalDigits fs \<longrightarrow>
                 parseNumber (ds @ CHR ''.'' # fs) k
                   = Inr (scaled (digitsValue 10 (ds @ fs)) (- int (length fs))))"
    if ds: "DecimalDigits ds" for ds
  proof -
    from ds have ne: "ds \<noteq> []" and all: "list_all isDecimalDigit ds"
      by (simp_all add: DecimalDigits_def)
    note hl = digits_hd_last [OF ds]
    have t1: "trim ds = ds"
      using ne hl by (intro trim_unchanged) (simp_all add: digit_not_space)
    have "\<not> isWhiteSpace CHR ''-''" by (simp add: isWhiteSpace_def)
    then have t2: "trim (CHR ''-'' # ds) = CHR ''-'' # ds"
      using ne hl by (intro trim_unchanged) (simp_all add: digit_not_space)
    have int: "parseNumber ds k = Inr (toDouble (digitsValue 10 ds) 1)"
      by (rule general) (simp_all add: t1 ne families(1) [OF ds])
    have neg: "parseNumber (CHR ''-'' # ds) k = Inr (negate (toDouble (digitsValue 10 ds) 1))"
      by (rule general) (simp_all add: t2 families(2) [OF ds])
    have exact: "parseNumber ds k = Inr (Finite (rat_of_int (digitsValue 10 ds)))"
      if "digitsValue 10 ds < 2 ^ 53"
      using int toDouble_exact [OF digitsValue_nonneg [OF _ all] that] by simp
    have dec: "parseNumber (ds @ CHR ''.'' # fs) k
                 = Inr (scaled (digitsValue 10 (ds @ fs)) (- int (length fs)))"
      if fs: "DecimalDigits fs" for fs
    proof -
      from fs have nf: "fs \<noteq> []" by (simp add: DecimalDigits_def)
      have "trim (ds @ CHR ''.'' # fs) = ds @ CHR ''.'' # fs"
        using ne nf hl digits_hd_last [OF fs]
        by (intro trim_unchanged) (simp_all add: digit_not_space)
      then show ?thesis
        by (intro general) (simp_all add: families(3) [OF ds fs])
    qed
    from int neg exact dec show ?thesis by blast
  qed
  from general [OF assms] rejected fam show ?thesis by blast
qed

theorem parseNumber_literals_witness:
  "trim ''3000'' \<noteq> [] \<and> DecimalDigits ''3000'' \<and> DecimalDigits ''42'' \<and> DecimalDigits ''14''
   \<and> parseNumber ''3000'' ''PORT'' = Inr (Finite 3000)
   \<and> parseNumber ''-42'' ''N'' = Inr (Finite (- 42))
   \<and> parseNumber ''3.14'' ''F'' = Inr (scaled 314 (- 2))
   \<and> StrNumericLiteral (trim ''abc'') = None
   \<and> parseNumber ''abc'' ''N'' = Inl (EnvError ''N'' [''Expected a number, got '' @ quoted ''abc''])"
proof -
  have t: "trim ''3000'' \<noteq> []" "trim ''abc'' \<noteq> []" by (simp_all add: trim_def isWhiteSpace_def)
  have d: "DecimalDigits ''3000''" "DecimalDigits ''42''" "DecimalDigits ''14''" "DecimalDigits ''3''"
    by (simp_all add: DecimalDigits_def isDecimalDigit_def)
  have v: "digitsValue 10 ''3000'' = 3000" "digitsValue 10 ''42'' = 42" "digitsValue 10 ''314'' = 314"
    by (simp_all add: digitsValue_def digitValue_def)
  have abc: "StrNumericLiteral (trim ''abc'') = None"
    by (simp add: Number_eval)
  have m42: "negate (toDouble 42 1) = Finite (- 42)" by (simp add: toDouble_int negate_def)
  show ?thesis
    using parseNumber_literals [OF t(1), of "''PORT''"] parseNumber_literals [OF t(1), of "''N''"]
          parseNumber_literals [OF t(1), of "''F''"] parseNumber_literals [OF t(2), of "''N''"]
          t d v abc m42
    by (auto simp: toDouble_int)
qed

text \<open>
  A string of white space is not a numeric literal, and \<^verbatim>\<open>parseNumber\<close> returns \<open>0\<close> for it:
  \<^verbatim>\<open>Number(" ")\<close> is \<open>0\<close>, not \<open>NaN\<close>.
\<close>

theorem parseNumber_space_counterexample:
  "'' '' \<noteq> [] \<and> StrNumericLiteral '' '' = None \<and> parseNumber '' '' ''N'' = Inr (Finite 0)"
  by (simp add: parseNumber_def isNaN_def Number_space Number_eval)



section \<open>The port parser\<close>

text \<open>The test of \<^verbatim>\<open>parsePort\<close> on the number that \<^verbatim>\<open>Number(raw)\<close> is.\<close>

lemma parsePort_Number:
  "parsePort raw k =
     (if \<exists>i. integerValue (Number raw) = Some i \<and> 0 \<le> i \<and> i \<le> 65535 then Inr (Number raw)
      else Inl (EnvError k [''Expected a port (0-65535), got '' @ [CHR 0x22] @ raw @ [CHR 0x22]]))"
proof (cases "Number raw")
  case (Finite q)
  show ?thesis
  proof (cases "rat_of_int \<lfloor>q\<rfloor> = q")
    case True
    then have "(q < 0) = (\<lfloor>q\<rfloor> < 0)" and "(65535 < q) = (65535 < \<lfloor>q\<rfloor>)"
      by linarith+
    with True show ?thesis
      by (auto simp: parsePort_def Let_def Finite isNaN_def Number_isInteger_def integerValue_def
            quoted_def)
  next
    case False
    then show ?thesis
      by (simp add: parsePort_def Let_def Finite isNaN_def Number_isInteger_def integerValue_def
            quoted_def)
  qed
qed (simp_all add: parsePort_def Let_def isNaN_def Number_isInteger_def integerValue_def quoted_def)

text \<open>
  C6, as the code has it. For a raw string that is not white space only, \<^verbatim>\<open>parsePort\<close> returns
  the number of the string when the string, without the white space around it, is a numeric
  string literal (\<open>StrNumericLiteral\<close>) whose number is an integer from \<open>0\<close> to \<open>65535\<close>, and
  throws an \<^verbatim>\<open>EnvError\<close> whose only message holds the raw string between double quotes
  otherwise: when the string is no such literal, when its number is not an integer, and when
  it is out of range. So digits that write an integer up to \<open>65535\<close> are accepted and give
  that integer, digits that write a greater one are rejected, and so is a minus sign before
  digits that write a positive integer. \<^verbatim>\<open>"0"\<close> and \<^verbatim>\<open>"65535"\<close> are accepted, \<^verbatim>\<open>"-1"\<close> and
  \<^verbatim>\<open>"99999"\<close> are not.
\<close>

theorem parsePort_range:
  assumes "trim raw \<noteq> []"
  shows "(\<forall>n. StrNumericLiteral (trim raw) = Some n \<longrightarrow>
            parsePort raw k =
              (if \<exists>i. integerValue n = Some i \<and> 0 \<le> i \<and> i \<le> 65535 then Inr n
               else Inl (EnvError k
                      [''Expected a port (0-65535), got '' @ [CHR 0x22] @ raw @ [CHR 0x22]])))
       \<and> (StrNumericLiteral (trim raw) = None \<longrightarrow>
            parsePort raw k
              = Inl (EnvError k [''Expected a port (0-65535), got '' @ [CHR 0x22] @ raw @ [CHR 0x22]]))
       \<and> (\<forall>ds. DecimalDigits ds \<and> digitsValue 10 ds < 2 ^ 53 \<longrightarrow>
            parsePort ds k =
              (if digitsValue 10 ds \<le> 65535 then Inr (Finite (rat_of_int (digitsValue 10 ds)))
               else Inl (EnvError k
                      [''Expected a port (0-65535), got '' @ [CHR 0x22] @ ds @ [CHR 0x22]]))
            \<and> (0 < digitsValue 10 ds \<longrightarrow>
                 parsePort (CHR ''-'' # ds) k
                   = Inl (EnvError k [''Expected a port (0-65535), got ''
                                        @ [CHR 0x22] @ CHR ''-'' # ds @ [CHR 0x22]])))
       \<and> parsePort ''0'' k = Inr (Finite 0)
       \<and> parsePort ''65535'' k = Inr (Finite 65535)
       \<and> parsePort ''-1'' k
           = Inl (EnvError k [''Expected a port (0-65535), got '' @ [CHR 0x22] @ ''-1'' @ [CHR 0x22]])
       \<and> parsePort ''99999'' k
           = Inl (EnvError k [''Expected a port (0-65535), got '' @ [CHR 0x22] @ ''99999'' @ [CHR 0x22]])"
proof -
  have literal: "parsePort raw k =
              (if \<exists>i. integerValue n = Some i \<and> 0 \<le> i \<and> i \<le> 65535 then Inr n
               else Inl (EnvError k
                      [''Expected a port (0-65535), got '' @ [CHR 0x22] @ raw @ [CHR 0x22]]))"
    if "StrNumericLiteral (trim raw) = Some n" for n
  proof -
    from that assms have num: "Number raw = n" by (simp add: Number_of_literal)
    show ?thesis by (simp only: parsePort_Number [of raw k] num)
  qed
  have other: "parsePort raw k
              = Inl (EnvError k [''Expected a port (0-65535), got '' @ [CHR 0x22] @ raw @ [CHR 0x22]])"
    if "StrNumericLiteral (trim raw) = None"
  proof -
    from that assms have "Number raw = NaN" by (simp add: Number_of_literal)
    with parsePort_Number [of raw k] show ?thesis by (simp add: integerValue_def)
  qed
  have digits: "parsePort ds k =
              (if digitsValue 10 ds \<le> 65535 then Inr (Finite (rat_of_int (digitsValue 10 ds)))
               else Inl (EnvError k
                      [''Expected a port (0-65535), got '' @ [CHR 0x22] @ ds @ [CHR 0x22]]))
            \<and> (0 < digitsValue 10 ds \<longrightarrow>
                 parsePort (CHR ''-'' # ds) k
                   = Inl (EnvError k [''Expected a port (0-65535), got ''
                                        @ [CHR 0x22] @ CHR ''-'' # ds @ [CHR 0x22]]))"
    if ds: "DecimalDigits ds \<and> digitsValue 10 ds < 2 ^ 53" for ds
  proof -
    let ?v = "digitsValue 10 ds"
    from ds have dd: "DecimalDigits ds" and small: "?v < 2 ^ 53" by simp_all
    from dd have ne: "ds \<noteq> []" and all: "list_all isDecimalDigit ds"
      by (simp_all add: DecimalDigits_def)
    have nonneg: "0 \<le> ?v" by (rule digitsValue_nonneg [OF _ all]) simp
    note hl = digits_hd_last [OF dd]
    have t1: "trim ds = ds"
      using ne hl by (intro trim_unchanged) (simp_all add: digit_not_space)
    have "\<not> isWhiteSpace CHR ''-''" by (simp add: isWhiteSpace_def)
    then have t2: "trim (CHR ''-'' # ds) = CHR ''-'' # ds"
      using ne hl by (intro trim_unchanged) (simp_all add: digit_not_space)
    have exact: "toDouble ?v 1 = Finite (rat_of_int ?v)"
      by (rule toDouble_exact [OF nonneg small])
    have plus: "Number ds = Finite (rat_of_int ?v)"
      using ne by (simp add: Number_of_literal t1 families(1) [OF dd] exact)
    have "integerValue (Finite (rat_of_int ?v)) = Some ?v" by (simp add: integerValue_def)
    with parsePort_Number [of ds k] plus nonneg
    have a: "parsePort ds k =
              (if ?v \<le> 65535 then Inr (Finite (rat_of_int ?v))
               else Inl (EnvError k
                      [''Expected a port (0-65535), got '' @ [CHR 0x22] @ ds @ [CHR 0x22]]))"
      by simp
    have b: "parsePort (CHR ''-'' # ds) k
                   = Inl (EnvError k [''Expected a port (0-65535), got ''
                                        @ [CHR 0x22] @ CHR ''-'' # ds @ [CHR 0x22]])"
      if pos: "0 < ?v"
    proof -
      from pos have "Number (CHR ''-'' # ds) = Finite (- rat_of_int ?v)"
        by (simp add: Number_of_literal t2 families(2) [OF dd] exact negate_def)
      moreover have "integerValue (Finite (- rat_of_int ?v)) = Some (- ?v)"
        by (simp add: integerValue_def)
      ultimately show ?thesis
        using parsePort_Number [of "CHR ''-'' # ds" k] pos by simp
    qed
    from a b show ?thesis by blast
  qed
  have examples: "parsePort ''0'' k = Inr (Finite 0)"
    "parsePort ''65535'' k = Inr (Finite 65535)"
    "parsePort ''-1'' k
       = Inl (EnvError k [''Expected a port (0-65535), got '' @ [CHR 0x22] @ ''-1'' @ [CHR 0x22]])"
    "parsePort ''99999'' k
       = Inl (EnvError k [''Expected a port (0-65535), got '' @ [CHR 0x22] @ ''99999'' @ [CHR 0x22]])"
    by (simp_all add: parsePort_def Let_def isNaN_def Number_isInteger_def quoted_def
          Number_0 Number_65535 Number_minus_1 Number_99999)
  have c1: "\<forall>n. StrNumericLiteral (trim raw) = Some n \<longrightarrow>
            parsePort raw k =
              (if \<exists>i. integerValue n = Some i \<and> 0 \<le> i \<and> i \<le> 65535 then Inr n
               else Inl (EnvError k
                      [''Expected a port (0-65535), got '' @ [CHR 0x22] @ raw @ [CHR 0x22]]))"
    using literal by blast
  have c2: "StrNumericLiteral (trim raw) = None \<longrightarrow>
            parsePort raw k
              = Inl (EnvError k [''Expected a port (0-65535), got '' @ [CHR 0x22] @ raw @ [CHR 0x22]])"
    using other by blast
  have c3: "\<forall>ds. DecimalDigits ds \<and> digitsValue 10 ds < 2 ^ 53 \<longrightarrow>
            parsePort ds k =
              (if digitsValue 10 ds \<le> 65535 then Inr (Finite (rat_of_int (digitsValue 10 ds)))
               else Inl (EnvError k
                      [''Expected a port (0-65535), got '' @ [CHR 0x22] @ ds @ [CHR 0x22]]))
            \<and> (0 < digitsValue 10 ds \<longrightarrow>
                 parsePort (CHR ''-'' # ds) k
                   = Inl (EnvError k [''Expected a port (0-65535), got ''
                                        @ [CHR 0x22] @ CHR ''-'' # ds @ [CHR 0x22]]))"
    using digits by blast
  show ?thesis by (intro conjI c1 c2 c3 examples)
qed

theorem parsePort_range_witness:
  "trim ''8080'' \<noteq> [] \<and> StrNumericLiteral (trim ''8080'') = Some (Finite 8080)
   \<and> integerValue (Finite 8080) = Some 8080
   \<and> parsePort ''8080'' ''P'' = Inr (Finite 8080)
   \<and> StrNumericLiteral (trim ''80.5'') = Some (Finite (161 / 2))
   \<and> integerValue (Finite (161 / 2)) = None
   \<and> parsePort ''80.5'' ''P''
       = Inl (EnvError ''P'' [''Expected a port (0-65535), got '' @ [CHR 0x22] @ ''80.5'' @ [CHR 0x22]])
   \<and> StrNumericLiteral (trim ''1e3'') = Some (Finite 1000)
   \<and> parsePort ''1e3'' ''P'' = Inr (Finite 1000)
   \<and> StrNumericLiteral (trim ''0x50'') = Some (Finite 80)
   \<and> parsePort ''0x50'' ''P'' = Inr (Finite 80)
   \<and> StrNumericLiteral (trim ''abc'') = None
   \<and> parsePort ''abc'' ''P''
       = Inl (EnvError ''P'' [''Expected a port (0-65535), got '' @ [CHR 0x22] @ ''abc'' @ [CHR 0x22]])"
proof -
  have t: "trim ''8080'' = ''8080''" "trim ''80.5'' = ''80.5''" "trim ''1e3'' = ''1e3''"
    "trim ''0x50'' = ''0x50''" "trim ''abc'' = ''abc''"
    by (simp_all add: trim_def isWhiteSpace_def)
  have n: "StrNumericLiteral ''8080'' = Some (Finite 8080)"
    by (simp add: Number_eval)
  have h: "StrNumericLiteral ''80.5'' = Some (Finite (161 / 2))"
    by code_simp
  have e: "StrNumericLiteral ''1e3'' = Some (Finite 1000)"
    by code_simp
  have x: "StrNumericLiteral ''0x50'' = Some (Finite 80)"
    by code_simp
  have a: "StrNumericLiteral ''abc'' = None"
    by (simp add: Number_eval)
  have fl: "\<lfloor>161 / 2 :: rat\<rfloor> = 80" by (simp add: floor_eq_iff)
  have i: "integerValue (Finite 8080) = Some 8080" "integerValue (Finite (161 / 2)) = None"
    "integerValue (Finite 1000) = Some 1000" "integerValue (Finite 80) = Some 80"
    by (simp_all add: integerValue_def fl)
  have ne: "trim ''8080'' \<noteq> []" "trim ''80.5'' \<noteq> []" "trim ''1e3'' \<noteq> []" "trim ''0x50'' \<noteq> []"
    "trim ''abc'' \<noteq> []"
    by (simp_all add: t)
  have p1: "parsePort ''8080'' ''P'' = Inr (Finite 8080)"
    using parsePort_range [OF ne(1), of "''P''", THEN conjunct1, rule_format, of "Finite 8080"]
    by (simp add: t n i)
  have p2: "parsePort ''80.5'' ''P''
       = Inl (EnvError ''P'' [''Expected a port (0-65535), got '' @ [CHR 0x22] @ ''80.5'' @ [CHR 0x22]])"
    using parsePort_range [OF ne(2), of "''P''", THEN conjunct1, rule_format, of "Finite (161 / 2)"]
    by (simp add: t h i)
  have p3: "parsePort ''1e3'' ''P'' = Inr (Finite 1000)"
    using parsePort_range [OF ne(3), of "''P''", THEN conjunct1, rule_format, of "Finite 1000"]
    by (simp add: t e i)
  have p4: "parsePort ''0x50'' ''P'' = Inr (Finite 80)"
    using parsePort_range [OF ne(4), of "''P''", THEN conjunct1, rule_format, of "Finite 80"]
    by (simp add: t x i)
  have p5: "parsePort ''abc'' ''P''
       = Inl (EnvError ''P'' [''Expected a port (0-65535), got '' @ [CHR 0x22] @ ''abc'' @ [CHR 0x22]])"
    using parsePort_range [OF ne(5), of "''P''", THEN conjunct2, THEN conjunct1]
    by (simp add: t a)
  from ne(1) n h e x a i(1,2) p1 p2 p3 p4 p5 show ?thesis by (simp add: t)
qed

text \<open>A string of one space is no numeric literal, yet \<^verbatim>\<open>parsePort\<close> takes it as port \<open>0\<close>.\<close>

theorem parsePort_space_counterexample:
  "'' '' \<noteq> [] \<and> StrNumericLiteral '' '' = None \<and> parsePort '' '' ''P'' = Inr (Finite 0)"
  by (simp add: parsePort_def isNaN_def Number_isInteger_def Number_space Number_eval)
end
